theory Spec2Isabelle
  imports
    Complex_Main
    "HOL-Library.Sublist"
    "HOL-Library.Char_ord"
    "HOL-Library.List_Lexorder"
    "HOL-Library.Product_Lexorder"
begin

section \<open>Values, errors and tables\<close>

text \<open>
  The two classes of the repository, \<open>TushareStockData\<close> and \<open>StockChartGenerator\<close>,
  work on pandas tables. A table cell is a string, a number, a timestamp or a missing
  value (pandas' NaN, None and NaT). Prices are Python floats; the code only stores,
  moves and compares them, and a comparison of two floats that are not NaN is the
  comparison of the numbers they denote, so a number is a \<open>real\<close> and NaN is a
  cell of its own. A timestamp is the integer pandas stores for it.
\<close>

datatype cell = Str string | Num real | Ts int | NaN

text \<open>
  Every \<open>raise\<close> of the source and every exception of a collaborator is a value.
  The three \<open>ValueError\<close>s the source raises itself are told apart by their message:
  \<open>MissingStockIdentifier\<close> (line 62 of TushareStockData.py), \<open>StockNameNotFound\<close>
  (line 42) and \<open>MissingColumns\<close> (line 120 of stockChartGenerator.py).
  \<open>LibError\<close> is any exception raised inside a collaborator: the remote API, the
  date parser, the charting library.
\<close>

datatype py_error =
    MissingStockIdentifier
  | StockNameNotFound string
  | MissingColumns "string list"
  | ReError string
  | KeyError string
  | TypeError string
  | FileNotFoundError string
  | IndexError string
  | AttributeError string
  | ValueError string
  | OSError string
  | LibError string

text \<open>
  A table has an optional index name, its column names in order, and its rows; a row is
  its index label and one cell per column.
\<close>

record frame =
  index_name :: "string option"
  columns :: "string list"
  rows :: "(cell \<times> cell list) list"

definition wf_frame :: "frame \<Rightarrow> bool" where
  "wf_frame df =
     (distinct (columns df) \<and> list_all (\<lambda>r. length (snd r) = length (columns df)) (rows df))"

text \<open>\<open>pd.DataFrame()\<close>: no columns, no rows.\<close>

definition empty_frame :: frame where
  "empty_frame = \<lparr>index_name = None, columns = [], rows = []\<rparr>"

text \<open>\<open>df.empty\<close>: some axis has length zero.\<close>

definition frame_empty :: "frame \<Rightarrow> bool" where
  "frame_empty df = (columns df = [] \<or> rows df = [])"

fun col_pos :: "string \<Rightarrow> string list \<Rightarrow> nat option" where
  "col_pos c [] = None"
| "col_pos c (x # xs) =
     (if x = c then Some 0 else (case col_pos c xs of None \<Rightarrow> None | Some k \<Rightarrow> Some (Suc k)))"

definition cell_at :: "cell list \<Rightarrow> nat \<Rightarrow> cell" where
  "cell_at cs k = (if k < length cs then cs ! k else NaN)"

text \<open>\<open>df[c]\<close>: the cells of column \<open>c\<close>, or KeyError.\<close>

definition get_col :: "frame \<Rightarrow> string \<Rightarrow> py_error + cell list" where
  "get_col df c =
     (case col_pos c (columns df) of
        None \<Rightarrow> Inl (KeyError c)
      | Some k \<Rightarrow> Inr (map (\<lambda>r. cell_at (snd r) k) (rows df)))"

text \<open>
  \<open>df[c] = values\<close>: an existing column is overwritten in place, a new one is appended
  as the last column. The values are given one per row.
\<close>

definition set_col :: "frame \<Rightarrow> string \<Rightarrow> cell list \<Rightarrow> frame" where
  "set_col df c vs =
     (case col_pos c (columns df) of
        Some k \<Rightarrow> df\<lparr>rows := map (\<lambda>(r, v). (fst r, (snd r)[k := v])) (zip (rows df) vs)\<rparr>
      | None \<Rightarrow> df\<lparr>columns := columns df @ [c],
                   rows := map (\<lambda>(r, v). (fst r, snd r @ [v])) (zip (rows df) vs)\<rparr>)"

text \<open>\<open>df[c] = v\<close> for a scalar \<open>v\<close>: every row gets \<open>v\<close>.\<close>

definition set_col_scalar :: "frame \<Rightarrow> string \<Rightarrow> cell \<Rightarrow> frame" where
  "set_col_scalar df c v = set_col df c (replicate (length (rows df)) v)"

text \<open>
  Sorting. pandas orders the cells of one kind by their value and puts missing values
  last; comparing cells of two kinds (a string with a number) raises TypeError.
  \<open>cell_key\<close> maps a cell to a key of a linear order that agrees with this on cells of
  one kind; \<open>same_kind\<close> is the check that no two kinds are mixed.
\<close>

fun cell_kind :: "cell \<Rightarrow> nat" where
  "cell_kind (Num _) = 0"
| "cell_kind (Ts _) = 1"
| "cell_kind (Str _) = 2"
| "cell_kind NaN = 3"

fun cell_key :: "cell \<Rightarrow> nat \<times> real \<times> string" where
  "cell_key (Num r) = (0, r, [])"
| "cell_key (Ts t) = (1, real_of_int t, [])"
| "cell_key (Str s) = (2, 0, s)"
| "cell_key NaN = (3, 0, [])"

definition same_kind :: "cell list \<Rightarrow> bool" where
  "same_kind cs =
     (let ks = remdups (map cell_kind (filter (\<lambda>c. c \<noteq> NaN) cs)) in length ks \<le> 1)"

text \<open>
  \<open>df.sort_values(c)\<close>: a new table with the rows in ascending order of column \<open>c\<close>.
  A label no column has raises KeyError, a label two columns have raises ValueError.
  The order pandas leaves rows of equal key in is its own choice; the model keeps them
  in their input order.
\<close>

definition sort_values :: "frame \<Rightarrow> string \<Rightarrow> py_error + frame" where
  "sort_values df c =
     (case col_pos c (columns df) of
        None \<Rightarrow> Inl (KeyError c)
      | Some k \<Rightarrow>
          if 1 < length (filter (\<lambda>x. x = c) (columns df))
          then Inl (ValueError ''The column label is not unique'')
          else if same_kind (map (\<lambda>r. cell_at (snd r) k) (rows df))
          then Inr (df\<lparr>rows := sort_key (\<lambda>r. cell_key (cell_at (snd r) k)) (rows df)\<rparr>)
          else Inl (TypeError ''not supported between instances''))"

section \<open>TushareStockData: symbol resolution and fetching\<close>

subsection \<open>The regular expressions of \<open>Series.str.contains\<close>\<close>

text \<open>
  \<open>stock_list['name'].str.contains(stock_name, na=False)\<close> leaves \<open>regex\<close> at its
  default \<open>True\<close>: pandas compiles \<open>stock_name\<close> as a Python regular expression and
  searches every name for a match. The model covers the patterns made of literal
  characters and the dot (any character but a newline), and the patterns that start
  with a repetition operator, which \<open>re.compile\<close> refuses with
  \<open>re.error: nothing to repeat at position 0\<close>. Any other pattern is handed to
  \<open>re_other\<close>, a parameter that stands for the rest of Python's \<open>re\<close> module.
\<close>

definition re_special :: "char list" where
  "re_special =
     [CHR ''.'', CHR ''^'', CHR ''$'', CHR ''*'', CHR ''+'', CHR ''?'', CHR ''{'', CHR ''}'',
      CHR ''['', CHR '']'', CHR 0x5C, CHR ''|'', CHR ''('', CHR '')'']"

definition re_plain :: "string \<Rightarrow> bool" where
  "re_plain pat = list_all (\<lambda>c. c \<notin> set re_special) pat"

definition atom_matches :: "char \<Rightarrow> char \<Rightarrow> bool" where
  "atom_matches p c = (if p = CHR ''.'' then c \<noteq> CHR 0x0A else p = c)"

fun match_here :: "string \<Rightarrow> string \<Rightarrow> bool" where
  "match_here [] s = True"
| "match_here (p # ps) [] = False"
| "match_here (p # ps) (c # cs) = (atom_matches p c \<and> match_here ps cs)"

fun dot_search :: "string \<Rightarrow> string \<Rightarrow> bool" where
  "dot_search pat [] = match_here pat []"
| "dot_search pat (c # cs) = (match_here pat (c # cs) \<or> dot_search pat cs)"

definition re_compile ::
  "(string \<Rightarrow> py_error + (string \<Rightarrow> bool)) \<Rightarrow> string \<Rightarrow> py_error + (string \<Rightarrow> bool)" where
  "re_compile re_other pat =
     (case pat of
        [] \<Rightarrow> Inr (dot_search [])
      | p # ps \<Rightarrow>
          if p \<in> set [CHR ''*'', CHR ''+'', CHR ''?'']
          then Inl (ReError ''nothing to repeat at position 0'')
          else if list_all (\<lambda>c. c \<notin> set re_special \<or> c = CHR ''.'') pat
          then Inr (dot_search pat)
          else re_other pat)"

text \<open>\<open>names.str.contains(pat, na=False)\<close>: the boolean flags; a missing name is False.\<close>

definition str_contains ::
  "(string \<Rightarrow> py_error + (string \<Rightarrow> bool)) \<Rightarrow> string \<Rightarrow> string option list
     \<Rightarrow> py_error + bool list" where
  "str_contains re_other pat names =
     (case re_compile re_other pat of
        Inl e \<Rightarrow> Inl e
      | Inr search \<Rightarrow>
          Inr (map (\<lambda>n. case n of None \<Rightarrow> False | Some s \<Rightarrow> search s) names))"

subsection \<open>The remote API\<close>

text \<open>
  The symbol directory is the table \<open>pro.stock_basic\<close> returns; one entry per listed
  stock, in the order of the API. A missing display name is \<open>None\<close>.
\<close>

record stock_entry =
  ts_code :: string
  name :: "string option"

text \<open>
  The collaborators of \<open>TushareStockData\<close>: the three requests the class sends
  (each answers with a table or raises), the clock, and the part of \<open>re\<close> outside the
  modelled patterns. The answers are fixed for the duration of a call.
\<close>

record tushare_api =
  stock_basic :: "py_error + stock_entry list"
  stock_basic_name :: "string \<Rightarrow> py_error + cell list"
  daily :: "string \<Rightarrow> string \<Rightarrow> string \<Rightarrow> py_error + frame"
  today :: string
  re_other :: "string \<Rightarrow> py_error + (string \<Rightarrow> bool)"

text \<open>Every request sent to the remote API is recorded, in order.\<close>

datatype request =
    StockBasicList
  | StockBasicByCode string
  | Daily string string string

subsection \<open>\<open>get_stock_code_by_name\<close>\<close>

definition get_stock_code_by_name ::
  "tushare_api \<Rightarrow> string \<Rightarrow> request list \<Rightarrow> (py_error + string) \<times> request list" where
  "get_stock_code_by_name api stock_name rq =
     (let rq1 = rq @ [StockBasicList] in
      case stock_basic api of
        Inl e \<Rightarrow> (Inl e, rq1)
      | Inr stock_list \<Rightarrow>
          (let result = filter (\<lambda>e. name e = Some stock_name) stock_list in
           case (if result = []
                 then (case str_contains (re_other api) stock_name (map name stock_list) of
                         Inl e \<Rightarrow> Inl e
                       | Inr flags \<Rightarrow> Inr (map fst (filter snd (zip stock_list flags))))
                 else Inr result) of
             Inl e \<Rightarrow> (Inl e, rq1)
           | Inr [] \<Rightarrow> (Inl (StockNameNotFound stock_name), rq1)
           | Inr (e # _) \<Rightarrow> (Inr (ts_code e), rq1)))"

subsection \<open>\<open>get_stock_data\<close>\<close>

text \<open>Python's truth value of an optional string: \<open>None\<close> and \<open>''\<close> are false.\<close>

fun truthy :: "string option \<Rightarrow> bool" where
  "truthy None = False"
| "truthy (Some s) = (s \<noteq> [])"

text \<open>\<open>a or b\<close> on optional strings.\<close>

definition py_or :: "string option \<Rightarrow> string option \<Rightarrow> string option" where
  "py_or a b = (if truthy a then a else b)"

text \<open>
  Lines 90 to 96, the branch taken when no stock name was given: the display name is
  asked of the directory by ticker code. An answer with no row leaves the table without
  a \<open>stock_name\<close> column; any exception of the request is caught and the ticker code
  is used as the name.
\<close>

definition annotate_by_code ::
  "tushare_api \<Rightarrow> string \<Rightarrow> frame \<Rightarrow> request list \<Rightarrow> (py_error + frame) \<times> request list" where
  "annotate_by_code api code df rq =
     (let rq1 = rq @ [StockBasicByCode code] in
      case stock_basic_name api code of
        Inl e \<Rightarrow> (Inr (set_col_scalar df ''stock_name'' (Str code)), rq1)
      | Inr [] \<Rightarrow> (Inr df, rq1)
      | Inr (n # _) \<Rightarrow> (Inr (set_col_scalar df ''stock_name'' n), rq1))"

text \<open>The default dates of lines 71 to 74: a missing or empty date is replaced.\<close>

definition start_or_default :: "string option \<Rightarrow> string" where
  "start_or_default start_date =
     (case start_date of Some s \<Rightarrow> if s \<noteq> [] then s else ''20100101'' | None \<Rightarrow> ''20100101'')"

definition end_or_default :: "tushare_api \<Rightarrow> string option \<Rightarrow> string" where
  "end_or_default api end_date =
     (case end_date of Some s \<Rightarrow> if s \<noteq> [] then s else today api | None \<Rightarrow> today api)"

definition get_stock_data ::
  "tushare_api \<Rightarrow> string option \<Rightarrow> string option \<Rightarrow> string option \<Rightarrow> string option
     \<Rightarrow> request list \<Rightarrow> (py_error + frame) \<times> request list" where
  "get_stock_data api stock_name stock_code start_date end_date rq =
     (if \<not> truthy stock_name \<and> \<not> truthy stock_code
      then (Inl MissingStockIdentifier, rq)
      else
        case (case stock_name of
                Some nm \<Rightarrow> if nm \<noteq> [] then get_stock_code_by_name api nm rq
                           else (Inr (case stock_code of Some c \<Rightarrow> c | None \<Rightarrow> []), rq)
              | None \<Rightarrow> (Inr (case stock_code of Some c \<Rightarrow> c | None \<Rightarrow> []), rq)) of
          (Inl e, rq1) \<Rightarrow> (Inl e, rq1)
        | (Inr code, rq1) \<Rightarrow>
            (let start = start_or_default start_date;
                 end_d = end_or_default api end_date;
                 rq2 = rq1 @ [Daily code start end_d]
             in case daily api code start end_d of
                  Inl e \<Rightarrow> (Inl e, rq2)
                | Inr df \<Rightarrow>
                    if frame_empty df then (Inr empty_frame, rq2)
                    else
                      (case sort_values df ''trade_date'' of
                         Inl e \<Rightarrow> (Inl e, rq2)
                       | Inr sorted_df \<Rightarrow>
                           (case stock_name of
                              Some nm \<Rightarrow>
                                if nm \<noteq> []
                                then (Inr (set_col_scalar sorted_df ''stock_name'' (Str nm)), rq2)
                                else annotate_by_code api code sorted_df rq2
                            | None \<Rightarrow> annotate_by_code api code sorted_df rq2))))"

subsection \<open>\<open>save_to_csv\<close>\<close>

text \<open>
  The file system as far as \<open>save_to_csv\<close> touches it: the directories that exist and
  the CSV files written, each with the header and the rows \<open>to_csv(index=False)\<close>
  serialises. Directory paths are compared without their trailing slashes; the
  components \<open>.\<close> and \<open>..\<close> are not resolved. The empty path as a directory
  is the current directory. Failures of the disk itself are outside the model.
\<close>

record csv_fs =
  dirs :: "string list"
  files :: "(string \<times> string list \<times> cell list list) list"

definition strip_slashes :: "string \<Rightarrow> string" where
  "strip_slashes p = rev (dropWhile (\<lambda>c. c = CHR ''/'') (rev p))"

definition is_dir :: "csv_fs \<Rightarrow> string \<Rightarrow> bool" where
  "is_dir fs d =
     (strip_slashes d = [] \<or> strip_slashes d \<in> set (map strip_slashes (dirs fs)))"

definition path_exists :: "csv_fs \<Rightarrow> string \<Rightarrow> bool" where
  "path_exists fs p =
     (p \<noteq> [] \<and> (is_dir fs p \<or> p \<in> set (map fst (files fs))))"

text \<open>\<open>os.path.dirname\<close> of \<open>posixpath\<close>.\<close>

definition dirname :: "string \<Rightarrow> string" where
  "dirname p =
     (let head = rev (dropWhile (\<lambda>c. c \<noteq> CHR ''/'') (rev p))
      in if head \<noteq> [] \<and> \<not> list_all (\<lambda>c. c = CHR ''/'') head
         then rev (dropWhile (\<lambda>c. c = CHR ''/'') (rev head))
         else head)"

text \<open>
  \<open>os.makedirs(p)\<close>: the directory and the directories above it; the empty path has
  no directory to create.
\<close>

definition ancestors :: "string \<Rightarrow> string list" where
  "ancestors p = map (\<lambda>i. take i p) (filter (\<lambda>i. p ! i = CHR ''/'') [0..<length p])"

definition makedirs :: "csv_fs \<Rightarrow> string \<Rightarrow> py_error + csv_fs" where
  "makedirs fs p =
     (if p = [] then Inl (FileNotFoundError p)
      else Inr (fs\<lparr>dirs := p # ancestors p @ dirs fs\<rparr>))"

text \<open>\<open>os.path.join(a, b)\<close> of \<open>posixpath\<close>.\<close>

definition path_join :: "string \<Rightarrow> string \<Rightarrow> string" where
  "path_join a b =
     (if b \<noteq> [] \<and> hd b = CHR ''/'' then b
      else if a = [] \<or> last a = CHR ''/'' then a @ b
      else a @ ''/'' @ b)"

text \<open>
  \<open>str(x)\<close> inside the f-string of the file name: a string cell is itself; how a number
  or a missing value prints is the parameter \<open>fmt\<close>.
\<close>

definition py_str :: "(cell \<Rightarrow> string) \<Rightarrow> cell \<Rightarrow> string" where
  "py_str fmt c = (case c of Str s \<Rightarrow> s | _ \<Rightarrow> fmt c)"

text \<open>
  \<open>Series.min()\<close> and \<open>Series.max()\<close>: missing values are skipped; a column with
  nothing else gives NaN; mixed kinds raise TypeError.
\<close>

definition col_min :: "cell list \<Rightarrow> py_error + cell" where
  "col_min cs =
     (if \<not> same_kind cs then Inl (TypeError ''not supported between instances'')
      else case sort_key cell_key (filter (\<lambda>c. c \<noteq> NaN) cs) of
             [] \<Rightarrow> Inr NaN
           | c # _ \<Rightarrow> Inr c)"

definition col_max :: "cell list \<Rightarrow> py_error + cell" where
  "col_max cs =
     (if \<not> same_kind cs then Inl (TypeError ''not supported between instances'')
      else case rev (sort_key cell_key (filter (\<lambda>c. c \<noteq> NaN) cs)) of
             [] \<Rightarrow> Inr NaN
           | c # _ \<Rightarrow> Inr c)"

text \<open>Lines 121 to 125: the file name derived from the table.\<close>

definition auto_filename :: "(cell \<Rightarrow> string) \<Rightarrow> frame \<Rightarrow> py_error + string" where
  "auto_filename fmt df =
     (case (case get_col df ''stock_name'' of
              Inr (c # _) \<Rightarrow> Inr (py_str fmt c)
            | Inr [] \<Rightarrow> Inl (IndexError ''single positional indexer is out-of-bounds'')
            | Inl _ \<Rightarrow> Inr ''unknown'') of
        Inl e \<Rightarrow> Inl e
      | Inr stock_name \<Rightarrow>
          (case get_col df ''trade_date'' of
             Inl e \<Rightarrow> Inl e
           | Inr ds \<Rightarrow>
               (case col_min ds of
                  Inl e \<Rightarrow> Inl e
                | Inr lo \<Rightarrow>
                    (case col_max ds of
                       Inl e \<Rightarrow> Inl e
                     | Inr hi \<Rightarrow>
                         Inr (stock_name @ ''_'' @ py_str fmt lo @ ''_'' @ py_str fmt hi
                              @ ''.csv'')))))"

text \<open>
  Lines 112 to 138. \<open>to_csv\<close> refuses a path whose directory does not exist: only
  \<open>output_dir\<close> is created, so a file name with a directory part of its own raises
  OSError unless that directory is there already.
\<close>

definition save_to_csv ::
  "(cell \<Rightarrow> string) \<Rightarrow> csv_fs \<Rightarrow> frame \<Rightarrow> string option \<Rightarrow> string
     \<Rightarrow> (py_error + string option) \<times> csv_fs" where
  "save_to_csv fmt fs df filename output_dir =
     (if frame_empty df then (Inr None, fs)
      else
        case (if \<not> path_exists fs output_dir then makedirs fs output_dir else Inr fs) of
          Inl e \<Rightarrow> (Inl e, fs)
        | Inr fs1 \<Rightarrow>
            (case (case filename of
                     Some f \<Rightarrow> if f \<noteq> [] then Inr f else auto_filename fmt df
                   | None \<Rightarrow> auto_filename fmt df) of
               Inl e \<Rightarrow> (Inl e, fs1)
             | Inr f \<Rightarrow>
                 (let f1 = (if suffix ''.csv'' f then f else f @ ''.csv'');
                      filepath = path_join output_dir f1
                  in if is_dir fs1 (dirname filepath)
                     then (Inr (Some filepath),
                           fs1\<lparr>files := (filepath, columns df, map snd (rows df))
                                            # files fs1\<rparr>)
                     else (Inl (OSError ''Cannot save file into a non-existent directory''),
                           fs1))))"

text \<open>
  \<open>get_and_save_stock_data\<close>: fetch, then save unless the table is empty.
\<close>

definition get_and_save_stock_data ::
  "tushare_api \<Rightarrow> (cell \<Rightarrow> string) \<Rightarrow> csv_fs \<Rightarrow> string option \<Rightarrow> string option
     \<Rightarrow> string option \<Rightarrow> string option \<Rightarrow> string option \<Rightarrow> string \<Rightarrow> request list
     \<Rightarrow> (py_error + frame \<times> string option) \<times> csv_fs \<times> request list" where
  "get_and_save_stock_data api fmt fs stock_name stock_code start_date end_date filename
     output_dir rq =
     (case get_stock_data api stock_name stock_code start_date end_date rq of
        (Inl e, rq1) \<Rightarrow> (Inl e, fs, rq1)
      | (Inr df, rq1) \<Rightarrow>
          if frame_empty df then (Inr (df, None), fs, rq1)
          else
            (case save_to_csv fmt fs df filename output_dir of
               (Inl e, fs1) \<Rightarrow> (Inl e, fs1, rq1)
             | (Inr p, fs1) \<Rightarrow> (Inr (df, p), fs1, rq1)))"

subsection \<open>The resolution the specification describes\<close>

text \<open>
  Written from the words of the specification, to be compared with
  \<open>get_stock_code_by_name\<close>: the ticker of the first entry whose display name is the
  queried name; failing that, of the first entry whose display name contains the queried
  name as a substring; failing that, the not-found error.
\<close>

definition resolve_spec :: "stock_entry list \<Rightarrow> string \<Rightarrow> py_error + string" where
  "resolve_spec dir nm =
     (case filter (\<lambda>e. name e = Some nm) dir of
        e # _ \<Rightarrow> Inr (ts_code e)
      | [] \<Rightarrow>
          (case filter (\<lambda>e. case name e of None \<Rightarrow> False | Some s \<Rightarrow> sublist nm s) dir of
             e # _ \<Rightarrow> Inr (ts_code e)
           | [] \<Rightarrow> Inl (StockNameNotFound nm)))"

section \<open>A remote source for the scenarios\<close>

text \<open>
  A small remote source on which the theorems are run: a directory of three stocks, and
  daily rows for one of them only (two trading days, newest first, as the API sends
  them). Every other ticker has no rows in any range.
\<close>

definition scenario_frame :: frame where
  "scenario_frame =
     \<lparr>index_name = None,
      columns = [''ts_code'', ''trade_date'', ''open'', ''high'', ''low'', ''close'', ''vol''],
      rows = [(Num 0, [Str ''600519.SH'', Str ''20230104'', Num 1730, Num 1738, Num 1716,
                       Num 1735, Num 20415]),
              (Num 1, [Str ''600519.SH'', Str ''20230103'', Num 1731, Num 1738, Num 1706,
                       Num 1730, Num 26034])]\<rparr>"

definition scenario_dir :: "stock_entry list" where
  "scenario_dir =
     [\<lparr>ts_code = ''600000.SH'', name = Some ''PUFA BANK''\<rparr>,
      \<lparr>ts_code = ''600519.SH'', name = Some ''KWEICHOW MOUTAI''\<rparr>,
      \<lparr>ts_code = ''000001.SZ'', name = Some ''PINGAN BANK''\<rparr>]"

definition scenario_api :: tushare_api where
  "scenario_api =
     \<lparr>stock_basic = Inr scenario_dir,
      stock_basic_name =
        (\<lambda>c. Inr (map (\<lambda>e. case name e of Some s \<Rightarrow> Str s | None \<Rightarrow> NaN)
                     (filter (\<lambda>e. ts_code e = c) scenario_dir))),
      daily = (\<lambda>c s e. if c = ''600519.SH'' then Inr scenario_frame
                        else Inr (scenario_frame\<lparr>rows := []\<rparr>)),
      today = ''20240101'',
      re_other = (\<lambda>p. Inl (LibError ''pattern outside the model''))\<rparr>"

section \<open>Predicates of the specification on fetched tables\<close>

text \<open>
  \<open>dates_ascending r\<close>: the rows of \<open>r\<close> are in ascending order of \<open>trade_date\<close>;
  \<open>dates_strictly_ascending r\<close>: and no date comes twice.
  \<open>all_ticker r code\<close>: every row of \<open>r\<close> carries ticker \<open>code\<close>.
  \<open>annotated_with r v\<close>: every row has \<open>v\<close> in its \<open>stock_name\<close> column.
  \<open>display_names dir code\<close>: the display names the directory lists for ticker
  \<open>code\<close>.
\<close>

definition dates_ascending :: "frame \<Rightarrow> bool" where
  "dates_ascending r =
     (case get_col r ''trade_date'' of
        Inr ds \<Rightarrow> sorted (map cell_key ds)
      | Inl e \<Rightarrow> False)"

definition dates_strictly_ascending :: "frame \<Rightarrow> bool" where
  "dates_strictly_ascending r =
     (case get_col r ''trade_date'' of
        Inr ds \<Rightarrow> sorted_wrt (<) (map cell_key ds)
      | Inl e \<Rightarrow> False)"

definition all_ticker :: "frame \<Rightarrow> string \<Rightarrow> bool" where
  "all_ticker r code = (get_col r ''ts_code'' = Inr (replicate (length (rows r)) (Str code)))"

definition annotated_with :: "frame \<Rightarrow> cell \<Rightarrow> bool" where
  "annotated_with r v = (get_col r ''stock_name'' = Inr (replicate (length (rows r)) v))"

definition display_names :: "stock_entry list \<Rightarrow> string \<Rightarrow> string option list" where
  "display_names dir code = map name (filter (\<lambda>e. ts_code e = code) dir)"

text \<open>
  Remote sources that answer every daily request with one given table, or that answer the
  request for a display name with no row, and four tables a remote source can send:
  one with a date twice, one with a row of another ticker, one whose dates are a string
  and a number, one with two columns of dates.
\<close>

definition scenario_api_daily :: "frame \<Rightarrow> tushare_api" where
  "scenario_api_daily df = scenario_api\<lparr>daily := (\<lambda>c s e. Inr df)\<rparr>"

definition scenario_api_no_names :: tushare_api where
  "scenario_api_no_names = scenario_api\<lparr>stock_basic_name := (\<lambda>c. Inr [])\<rparr>"

definition scenario_twice :: frame where
  "scenario_twice =
     \<lparr>index_name = None, columns = [''ts_code'', ''trade_date''],
      rows = [(Num 0, [Str ''600519.SH'', Str ''20230104'']),
              (Num 1, [Str ''600519.SH'', Str ''20230104''])]\<rparr>"

definition scenario_other_ticker :: frame where
  "scenario_other_ticker =
     \<lparr>index_name = None, columns = [''ts_code'', ''trade_date''],
      rows = [(Num 0, [Str ''600519.SH'', Str ''20230104'']),
              (Num 1, [Str ''000001.SZ'', Str ''20230103''])]\<rparr>"

definition scenario_mixed_dates :: frame where
  "scenario_mixed_dates =
     \<lparr>index_name = None, columns = [''ts_code'', ''trade_date''],
      rows = [(Num 0, [Str ''600519.SH'', Str ''20230104'']),
              (Num 1, [Str ''600519.SH'', Num 20230103])]\<rparr>"

definition scenario_two_date_columns :: frame where
  "scenario_two_date_columns =
     \<lparr>index_name = None, columns = [''ts_code'', ''trade_date'', ''trade_date''],
      rows = [(Num 0, [Str ''600519.SH'', Str ''20230104'', Str ''20230104'']),
              (Num 1, [Str ''600519.SH'', Str ''20230103'', Str ''20230103''])]\<rparr>"

section \<open>StockChartGenerator: preparing the data\<close>

subsection \<open>The pandas operations \<open>prepare_data\<close> uses\<close>

text \<open>
  The three date conversions of lines 89, 93 and 96 (and 99) are pandas' own:
  \<open>pd.to_datetime(column, format='%Y%m%d')\<close>, \<open>pd.to_datetime(column)\<close> and
  \<open>pd.to_datetime(str(x))\<close> on one value. Each answers with timestamps or raises.
  They are parameters of the model. So is \<open>lower_other\<close>, Python's
  \<open>str.lower\<close> on a string that has a character outside ASCII.
\<close>

record pandas_lib =
  to_datetime_fmt :: "cell list \<Rightarrow> py_error + cell list"
  to_datetime_auto :: "cell list \<Rightarrow> py_error + cell list"
  to_datetime_str :: "cell \<Rightarrow> py_error + cell"
  lower_other :: "string \<Rightarrow> string"

text \<open>\<open>column.apply(f)\<close>: \<open>f\<close> on every value in order; the first exception ends it.\<close>

fun apply_each :: "(cell \<Rightarrow> py_error + cell) \<Rightarrow> cell list \<Rightarrow> py_error + cell list" where
  "apply_each f [] = Inr []"
| "apply_each f (c # cs) =
     (case f c of
        Inl e \<Rightarrow> Inl e
      | Inr v \<Rightarrow> (case apply_each f cs of Inl e \<Rightarrow> Inl e | Inr vs \<Rightarrow> Inr (v # vs)))"

text \<open>
  \<open>df.set_index(c)\<close>: a new table whose index is column \<open>c\<close>, which leaves the
  columns.
\<close>

definition drop_nth :: "nat \<Rightarrow> 'a list \<Rightarrow> 'a list" where
  "drop_nth k xs = take k xs @ drop (Suc k) xs"

definition set_index :: "frame \<Rightarrow> string \<Rightarrow> py_error + frame" where
  "set_index df c =
     (case col_pos c (columns df) of
        None \<Rightarrow> Inl (KeyError c)
      | Some k \<Rightarrow>
          Inr \<lparr>index_name = Some c,
               columns = drop_nth k (columns df),
               rows = map (\<lambda>r. (cell_at (snd r) k, drop_nth k (snd r))) (rows df)\<rparr>)"

text \<open>
  \<open>str.lower\<close>. A string is a list of bytes (UTF-8). On a string of ASCII
  characters every upper-case letter gets the bit that makes it lower-case and every
  other character is left alone (\<open>ascii_lower\<close>); on a string with a character
  outside ASCII the result is the library's.
\<close>

definition upper_letters :: "char list" where
  "upper_letters = ''ABCDEFGHIJKLMNOPQRSTUVWXYZ''"

fun to_lower_bit :: "char \<Rightarrow> char" where
  "to_lower_bit (Char b0 b1 b2 b3 b4 b5 b6 b7) = Char b0 b1 b2 b3 b4 True b6 b7"

definition lower_char :: "char \<Rightarrow> char" where
  "lower_char c = (if c \<in> set upper_letters then to_lower_bit c else c)"

definition ascii_lower :: "string \<Rightarrow> string" where
  "ascii_lower s = map lower_char s"

fun is_ascii :: "char \<Rightarrow> bool" where
  "is_ascii (Char b0 b1 b2 b3 b4 b5 b6 b7) = (\<not> b7)"

definition str_lower :: "pandas_lib \<Rightarrow> string \<Rightarrow> string" where
  "str_lower lib s = (if list_all is_ascii s then ascii_lower s else lower_other lib s)"

text \<open>The synonym table of lines 103 to 110 and \<open>rename(columns=column_mapping)\<close>.\<close>

definition column_mapping :: "(string \<times> string) list" where
  "column_mapping =
     [(''open'', ''Open''), (''high'', ''High''), (''low'', ''Low''), (''close'', ''Close''),
      (''vol'', ''Volume''), (''volume'', ''Volume'')]"

definition rename_column :: "string \<Rightarrow> string" where
  "rename_column c = (case map_of column_mapping c of Some n \<Rightarrow> n | None \<Rightarrow> c)"

definition required_columns :: "string list" where
  "required_columns = [''Open'', ''High'', ''Low'', ''Close'']"

text \<open>
  \<open>df.sort_index()\<close>: a new table with the rows in ascending order of the index; an
  index that is ascending already is left as it is. An index of mixed kinds raises
  TypeError.
\<close>

definition sort_index :: "frame \<Rightarrow> py_error + frame" where
  "sort_index df =
     (if same_kind (map fst (rows df))
      then Inr (df\<lparr>rows := sort_key (\<lambda>r. cell_key (fst r)) (rows df)\<rparr>)
      else Inl (TypeError ''not supported between instances''))"

subsection \<open>\<open>prepare_data\<close> on table values\<close>

text \<open>
  Lines 85 to 100: the date column becomes the index. The nested \<open>try\<close> blocks try the
  three conversions in order; only the failure of the last one leaves the function.
\<close>

definition convert_trade_date :: "pandas_lib \<Rightarrow> cell list \<Rightarrow> py_error + cell list" where
  "convert_trade_date lib col =
     (case to_datetime_fmt lib col of
        Inr ts \<Rightarrow> Inr ts
      | Inl _ \<Rightarrow>
          (case to_datetime_auto lib col of
             Inr ts \<Rightarrow> Inr ts
           | Inl _ \<Rightarrow> apply_each (to_datetime_str lib) col))"

definition date_step :: "pandas_lib \<Rightarrow> frame \<Rightarrow> py_error + frame" where
  "date_step lib data =
     (if ''trade_date'' \<in> set (columns data)
      then (case get_col data ''trade_date'' of
              Inl e \<Rightarrow> Inl e
            | Inr col \<Rightarrow>
                (case convert_trade_date lib col of
                   Inl e \<Rightarrow> Inl e
                 | Inr ts \<Rightarrow> set_index (set_col data ''Date'' ts) ''Date''))
      else if ''Date'' \<in> set (columns data)
      then (case get_col data ''Date'' of
              Inl e \<Rightarrow> Inl e
            | Inr col \<Rightarrow>
                (case to_datetime_auto lib col of
                   Inl e \<Rightarrow> Inl e
                 | Inr ts \<Rightarrow> set_index (set_col data ''Date'' ts) ''Date''))
      else Inr data)"


text \<open>Line 118: the required columns that are absent, in the order of the list.\<close>

definition missing_columns :: "string list \<Rightarrow> string list" where
  "missing_columns cs = filter (\<lambda>c. c \<notin> set cs) required_columns"

text \<open>Lines 113 to 125: rename the columns, check the required ones, sort by the index.\<close>

definition rename_check_sort :: "pandas_lib \<Rightarrow> frame \<Rightarrow> py_error + frame" where
  "rename_check_sort lib data =
     (let data1 = data\<lparr>columns := map (str_lower lib) (columns data)\<rparr>;
          data2 = data1\<lparr>columns := map rename_column (columns data1)\<rparr>
      in if missing_columns (columns data2) \<noteq> []
         then Inl (MissingColumns (missing_columns (columns data2)))
         else sort_index data2)"

text \<open>
  Line 113 reaches the column names through the \<open>.str\<close> accessor of the column
  index. A table that comes in without columns is \<open>pd.DataFrame()\<close>, whose column
  index holds no strings, and the accessor raises AttributeError. (A table that
  \<open>set_index\<close> leaves without columns has an empty index of strings, which the
  accessor takes.)
\<close>

definition prepare_data :: "pandas_lib \<Rightarrow> frame \<Rightarrow> py_error + frame" where
  "prepare_data lib df =
     (case date_step lib df of
        Inl e \<Rightarrow> Inl e
      | Inr data \<Rightarrow>
          if columns df = []
          then Inl (AttributeError ''Can only use .str accessor with string values'')
          else rename_check_sort lib data)"

subsection \<open>\<open>prepare_data\<close> on objects\<close>

text \<open>
  The same function with the tables as objects in a store, to tell the assignments that
  change an object in place (\<open>data['Date'] = ...\<close>, \<open>data.columns = ...\<close>) from the
  calls that build a new one (\<open>copy\<close>, \<open>set_index\<close>, \<open>rename\<close>, \<open>sort_index\<close>).
  A reference is a position in the store; a new object is put at the end.
\<close>

type_synonym store = "frame list"

definition alloc :: "store \<Rightarrow> frame \<Rightarrow> store \<times> nat" where
  "alloc h f = (h @ [f], length h)"

definition date_step_store :: "pandas_lib \<Rightarrow> store \<Rightarrow> nat \<Rightarrow> store \<times> (py_error + nat)" where
  "date_step_store lib h data =
     (if ''trade_date'' \<in> set (columns (h ! data))
      then (case get_col (h ! data) ''trade_date'' of
              Inl e \<Rightarrow> (h, Inl e)
            | Inr col \<Rightarrow>
                (case convert_trade_date lib col of
                   Inl e \<Rightarrow> (h, Inl e)
                 | Inr ts \<Rightarrow>
                     (let h1 = h[data := set_col (h ! data) ''Date'' ts] in
                      case set_index (h1 ! data) ''Date'' of
                        Inl e \<Rightarrow> (h1, Inl e)
                      | Inr f \<Rightarrow> (case alloc h1 f of (h2, r) \<Rightarrow> (h2, Inr r)))))
      else if ''Date'' \<in> set (columns (h ! data))
      then (case get_col (h ! data) ''Date'' of
              Inl e \<Rightarrow> (h, Inl e)
            | Inr col \<Rightarrow>
                (case to_datetime_auto lib col of
                   Inl e \<Rightarrow> (h, Inl e)
                 | Inr ts \<Rightarrow>
                     (let h1 = h[data := set_col (h ! data) ''Date'' ts] in
                      case set_index (h1 ! data) ''Date'' of
                        Inl e \<Rightarrow> (h1, Inl e)
                      | Inr f \<Rightarrow> (case alloc h1 f of (h2, r) \<Rightarrow> (h2, Inr r)))))
      else (h, Inr data))"

definition rename_check_sort_store ::
  "pandas_lib \<Rightarrow> store \<Rightarrow> nat \<Rightarrow> store \<times> (py_error + nat)" where
  "rename_check_sort_store lib h data =
     (let h1 = h[data := (h ! data)\<lparr>columns := map (str_lower lib) (columns (h ! data))\<rparr>]
      in case alloc h1 ((h1 ! data)\<lparr>columns := map rename_column (columns (h1 ! data))\<rparr>) of
           (h2, data2) \<Rightarrow>
             if missing_columns (columns (h2 ! data2)) \<noteq> []
             then (h2, Inl (MissingColumns (missing_columns (columns (h2 ! data2)))))
             else (case sort_index (h2 ! data2) of
                     Inl e \<Rightarrow> (h2, Inl e)
                   | Inr f \<Rightarrow> (case alloc h2 f of (h3, r) \<Rightarrow> (h3, Inr r))))"

definition prepare_data_store :: "pandas_lib \<Rightarrow> store \<Rightarrow> nat \<Rightarrow> store \<times> (py_error + nat)" where
  "prepare_data_store lib h df =
     (case alloc h (h ! df) of
        (h0, data0) \<Rightarrow>
          (case date_step_store lib h0 data0 of
             (h1, Inl e) \<Rightarrow> (h1, Inl e)
           | (h1, Inr data) \<Rightarrow>
               if columns (h ! df) = []
               then (h1, Inl (AttributeError ''Can only use .str accessor with string values''))
               else rename_check_sort_store lib h1 data))"

text \<open>
  The same steps without the copy of line 82, acting on the caller's object: what the
  comment of line 81 says the copy is there to avoid. It is here for comparison only.
\<close>

definition prepare_data_store_no_copy ::
  "pandas_lib \<Rightarrow> store \<Rightarrow> nat \<Rightarrow> store \<times> (py_error + nat)" where
  "prepare_data_store_no_copy lib h df =
     (case date_step_store lib h df of
        (h1, Inl e) \<Rightarrow> (h1, Inl e)
      | (h1, Inr data) \<Rightarrow>
          if columns (h ! df) = []
          then (h1, Inl (AttributeError ''Can only use .str accessor with string values''))
          else rename_check_sort_store lib h1 data)"

section \<open>Tables and a date library for the scenarios\<close>

text \<open>
  A date library on which the theorems are run: an eight-digit string becomes the
  timestamp of the number it spells (so the order of the dates is kept), a timestamp
  stays, anything else raises. The scenarios have no column name outside ASCII, where
  its \<open>lower_other\<close> would be asked. \<open>scenario_ohlc\<close> is a table with canonical column
  names, newest row first; \<open>scenario_no_close\<close> is a table without a close column,
  \<open>scenario_bad_date\<close> one whose date is no date as well.
\<close>

definition yyyymmdd :: "cell \<Rightarrow> py_error + cell" where
  "yyyymmdd c =
     (case c of
        Str s \<Rightarrow>
          if length s = 8 \<and> list_all (\<lambda>d. d \<in> set ''0123456789'') s
          then Inr (Ts (int (foldl (\<lambda>n d. 10 * n + (of_char d - 48)) 0 s)))
          else Inl (LibError ''unparsable date'')
      | Ts t \<Rightarrow> Inr (Ts t)
      | _ \<Rightarrow> Inl (LibError ''unparsable date''))"

definition scenario_pandas :: pandas_lib where
  "scenario_pandas =
     \<lparr>to_datetime_fmt = apply_each yyyymmdd,
      to_datetime_auto = apply_each yyyymmdd,
      to_datetime_str = yyyymmdd,
      lower_other = (\<lambda>s. s)\<rparr>"

definition scenario_ohlc :: frame where
  "scenario_ohlc =
     \<lparr>index_name = None,
      columns = [''Date'', ''Open'', ''High'', ''Low'', ''Close'', ''Volume''],
      rows = [(Num 0, [Str ''20230104'', Num 1730, Num 1738, Num 1716, Num 1735, Num 20415]),
              (Num 1, [Str ''20230103'', Num 1731, Num 1738, Num 1706, Num 1730, Num 26034])]\<rparr>"



section \<open>StockChartGenerator: drawing\<close>

subsection \<open>Titles, plot parameters and figures\<close>

text \<open>
  The title of a chart is the string the caller gave, or one of the two strings
  \<open>generate_chart\<close> builds: the stock name with the first and last date of the chart,
  or the fixed default. The texts around the three parts are constants of the source.
\<close>

datatype chart_title =
    GivenTitle string
  | AutoTitle cell string string
  | PlainTitle

fun title_truthy :: "chart_title \<Rightarrow> bool" where
  "title_truthy (GivenTitle t) = (t \<noteq> [])"
| "title_truthy (AutoTitle n s e) = True"
| "title_truthy PlainTitle = True"

text \<open>
  \<open>plot_params\<close> is a Python dict from option names to values; \<open>update(kwargs)\<close>
  overwrites the options the caller passes again and adds the new ones at the end.
\<close>

datatype pval = PStr string | PBool bool | PInt int | PSize real real | PTitle chart_title

fun dict_set :: "string \<Rightarrow> pval \<Rightarrow> (string \<times> pval) list \<Rightarrow> (string \<times> pval) list" where
  "dict_set k v [] = [(k, v)]"
| "dict_set k v (kv # d) = (if fst kv = k then (k, v) # d else kv # dict_set k v d)"

definition dict_update ::
  "(string \<times> pval) list \<Rightarrow> (string \<times> pval) list \<Rightarrow> (string \<times> pval) list" where
  "dict_update d kw = foldl (\<lambda>acc kv. dict_set (fst kv) (snd kv) acc) d kw"

text \<open>
  What the manual rendering of \<open>_fallback_plot\<close> draws: the \<open>ax1.plot\<close> calls in
  order (each a vertical line at position \<open>x\<close> between two prices, with a colour and
  a width), the title, the axis range, the tick positions with their labels, and the
  heights of the volume bars when the volume subplot is drawn.
\<close>

record plot_line =
  line_x :: nat
  line_from :: cell
  line_to :: cell
  line_color :: string
  line_width :: real

record fallback_figure =
  fb_lines :: "plot_line list"
  fb_title :: chart_title
  fb_xlim :: nat
  fb_ticks :: "nat list"
  fb_labels :: "string list"
  fb_volume :: "cell list option"
  fb_figsize :: "real \<times> real"

text \<open>A figure is the charting library's own (of a type the model leaves open) or the manual one.\<close>

datatype 'f figure = MpfFigure 'f | FallbackFigure fallback_figure

text \<open>
  The collaborators of \<open>StockChartGenerator\<close>: the pandas functions of
  \<open>prepare_data\<close>, \<open>strftime\<close> on a timestamp, \<open>mpf.plot\<close> (which answers
  with a figure or raises), \<open>pd.read_csv\<close>, and \<open>iterrows_cast\<close>: the values of a
  row as \<open>iterrows\<close> yields them. pandas gives each row as a series of one dtype,
  so in a table of integer and float columns the integers of a row are converted to
  floats (and rounded when they are too large for a float to hold exactly).
\<close>

record 'f chart_lib =
  pandas :: pandas_lib
  strftime :: "int \<Rightarrow> string"
  mpf_plot :: "frame \<Rightarrow> (string \<times> pval) list \<Rightarrow> py_error + 'f"
  read_csv :: "string \<Rightarrow> py_error + frame"
  iterrows_cast :: "frame \<Rightarrow> cell list \<Rightarrow> cell list"

text \<open>
  \<open>x.strftime('%Y-%m-%d')\<close> on an index label: a timestamp is formatted, the missing
  timestamp refuses with a ValueError, a number or a string has no such method.
\<close>

definition index_strftime :: "'f chart_lib \<Rightarrow> cell \<Rightarrow> py_error + string" where
  "index_strftime lib c =
     (case c of
        Ts t \<Rightarrow> Inr (strftime lib t)
      | NaN \<Rightarrow> Inl (ValueError ''NaTType does not support strftime'')
      | _ \<Rightarrow> Inl (AttributeError ''strftime''))"

subsection \<open>\<open>_fallback_plot\<close>\<close>

text \<open>
  \<open>row[c]\<close> on a row of \<open>iterrows\<close>: the cell under the column named \<open>c\<close>. A
  missing name is a KeyError; a name that two columns share gives a series instead of
  a value, which the comparison and the drawing that follow refuse with a ValueError.
\<close>

definition row_get :: "string list \<Rightarrow> cell list \<Rightarrow> string \<Rightarrow> py_error + cell" where
  "row_get cols cells c =
     (case filter (\<lambda>k. cols ! k = c) [0..<length cols] of
        [] \<Rightarrow> Inl (KeyError c)
      | [k] \<Rightarrow> Inr (cell_at cells k)
      | _ \<Rightarrow> Inl (ValueError ''ambiguous''))"

text \<open>
  \<open>a >= b\<close> on two cells: numbers, timestamps and strings compare with their own kind;
  a comparison with a missing number is false; two kinds raise TypeError.
\<close>

fun cell_ge :: "cell \<Rightarrow> cell \<Rightarrow> py_error + bool" where
  "cell_ge (Num a) (Num b) = Inr (a \<ge> b)"
| "cell_ge (Ts a) (Ts b) = Inr (a \<ge> b)"
| "cell_ge (Str a) (Str b) = Inr (a \<ge> b)"
| "cell_ge NaN (Num b) = Inr False"
| "cell_ge (Num a) NaN = Inr False"
| "cell_ge NaN (Ts b) = Inr False"
| "cell_ge (Ts a) NaN = Inr False"
| "cell_ge NaN NaN = Inr False"
| "cell_ge a b = Inl (TypeError ''not supported between instances'')"

text \<open>
  Lines 251 to 254, the loop over the rows of \<open>iterrows\<close>: for row number \<open>i\<close>
  a thin black line from low to high and a line of width 3 from open to close, red
  when the close is at least the open and green otherwise.
\<close>

fun fallback_lines ::
  "string list \<Rightarrow> cell list list \<Rightarrow> nat \<Rightarrow> py_error + plot_line list" where
  "fallback_lines cols [] i = Inr []"
| "fallback_lines cols (r # rs) i =
     (case row_get cols r ''Close'' of
        Inl e \<Rightarrow> Inl e
      | Inr c \<Rightarrow>
     (case row_get cols r ''Open'' of
        Inl e \<Rightarrow> Inl e
      | Inr opn \<Rightarrow>
     (case cell_ge c opn of
        Inl e \<Rightarrow> Inl e
      | Inr up \<Rightarrow>
     (case row_get cols r ''Low'' of
        Inl e \<Rightarrow> Inl e
      | Inr l \<Rightarrow>
     (case row_get cols r ''High'' of
        Inl e \<Rightarrow> Inl e
      | Inr h \<Rightarrow>
     (case fallback_lines cols rs (Suc i) of
        Inl e \<Rightarrow> Inl e
      | Inr ls \<Rightarrow>
          Inr (\<lparr>line_x = i, line_from = l, line_to = h, line_color = ''k'',
                line_width = 8 / 10\<rparr>
               # \<lparr>line_x = i, line_from = opn, line_to = c,
                   line_color = (if up then ''r'' else ''g''), line_width = 3\<rparr>
               # ls)))))))"

text \<open>\<open>data.iterrows()\<close>: the rows in order, each with the values \<open>iterrows\<close> yields.\<close>

definition iterrows :: "'f chart_lib \<Rightarrow> frame \<Rightarrow> cell list list" where
  "iterrows lib data = map (\<lambda>r. iterrows_cast lib data (snd r)) (rows data)"

text \<open>Lines 265 to 268: every \<open>n\<close>-th row gets a tick, labelled with its date.\<close>

definition tick_positions :: "nat \<Rightarrow> nat list" where
  "tick_positions len = filter (\<lambda>i. i mod (max 1 (len div 10)) = 0) [0..<len]"

fun tick_labels ::
  "'f chart_lib \<Rightarrow> (cell \<times> cell list) list \<Rightarrow> nat list \<Rightarrow> py_error + string list" where
  "tick_labels lib rs [] = Inr []"
| "tick_labels lib rs (i # ks) =
     (case index_strftime lib (fst (rs ! i)) of
        Inl e \<Rightarrow> Inl e
      | Inr s \<Rightarrow> (case tick_labels lib rs ks of Inl e \<Rightarrow> Inl e | Inr ss \<Rightarrow> Inr (s # ss)))"

text \<open>
  \<open>data['Volume']\<close> as the heights of the bars: a missing column is a KeyError, two
  columns of the name give a table, which \<open>bar\<close> refuses with a TypeError.
\<close>

definition select_col :: "frame \<Rightarrow> string \<Rightarrow> py_error + cell list" where
  "select_col df c =
     (if length (filter (\<lambda>x. x = c) (columns df)) > 1
      then Inl (TypeError ''only length-1 arrays can be converted'')
      else get_col df c)"

definition fallback_plot ::
  "'f chart_lib \<Rightarrow> frame \<Rightarrow> chart_title \<Rightarrow> bool \<Rightarrow> real \<times> real
     \<Rightarrow> py_error + fallback_figure" where
  "fallback_plot lib data title volume figsize =
     (case fallback_lines (columns data) (iterrows lib data) 0 of
        Inl e \<Rightarrow> Inl e
      | Inr ls \<Rightarrow>
          (case tick_labels lib (rows data) (tick_positions (length (rows data))) of
             Inl e \<Rightarrow> Inl e
           | Inr labels \<Rightarrow>
               (case (if volume
                      then (case select_col data ''Volume'' of
                              Inl e \<Rightarrow> Inl e
                            | Inr vs \<Rightarrow> Inr (Some vs))
                      else Inr None) of
                  Inl e \<Rightarrow> Inl e
                | Inr bars \<Rightarrow>
                    Inr \<lparr>fb_lines = ls, fb_title = title, fb_xlim = length (rows data),
                         fb_ticks = tick_positions (length (rows data)), fb_labels = labels,
                         fb_volume = bars, fb_figsize = figsize\<rparr>)))"

subsection \<open>\<open>generate_chart\<close>\<close>

text \<open>The data argument: the path of a CSV file or a table.\<close>

datatype chart_input = CsvPath string | Table frame

text \<open>Lines 157 to 164: the title when the caller gave none.\<close>

definition chart_title_for ::
  "'f chart_lib \<Rightarrow> frame \<Rightarrow> frame \<Rightarrow> string option \<Rightarrow> py_error + chart_title" where
  "chart_title_for lib df chart_data title =
     (case title of
        Some t \<Rightarrow> Inr (GivenTitle t)
      | None \<Rightarrow>
          if ''stock_name'' \<in> set (columns df)
          then (case get_col df ''stock_name'' of
                  Inl e \<Rightarrow> Inl e
                | Inr [] \<Rightarrow> Inl (IndexError ''single positional indexer is out-of-bounds'')
                | Inr (nm # _) \<Rightarrow>
                    (case rows chart_data of
                       [] \<Rightarrow> Inl (IndexError ''index 0 is out of bounds'')
                     | r # rs \<Rightarrow>
                         (case index_strftime lib (fst r) of
                            Inl e \<Rightarrow> Inl e
                          | Inr s \<Rightarrow>
                              (case index_strftime lib (fst (last (r # rs))) of
                                 Inl e \<Rightarrow> Inl e
                               | Inr e \<Rightarrow> Inr (AutoTitle nm s e)))))
          else Inr PlainTitle)"

text \<open>Lines 167 to 182: the options handed to \<open>mpf.plot\<close>.\<close>

definition plot_params ::
  "string \<Rightarrow> bool \<Rightarrow> string \<Rightarrow> real \<times> real \<Rightarrow> chart_title \<Rightarrow> (string \<times> pval) list
     \<Rightarrow> (string \<times> pval) list" where
  "plot_params chart_type volume style figsize title kwargs =
     (let base = [(''type'', PStr chart_type), (''volume'', PBool volume),
                  (''style'', PStr style), (''figsize'', PSize (fst figsize) (snd figsize)),
                  (''datetime_format'', PStr ''%Y-%m-%d''), (''xrotation'', PInt 45),
                  (''show_nontrading'', PBool False)];
          titled = (if title_truthy title then dict_set ''title'' (PTitle title) base else base)
      in dict_update titled kwargs)"

text \<open>
  Line 186: \<open>mpf.plot(chart_data, **plot_params, returnfig=True)\<close>. An option named
  \<open>returnfig\<close> among the caller's makes the call itself a TypeError, raised inside the
  \<open>try\<close> like every exception of the library.
\<close>

definition plot_attempt :: "'f chart_lib \<Rightarrow> frame \<Rightarrow> (string \<times> pval) list \<Rightarrow> py_error + 'f" where
  "plot_attempt lib chart_data params =
     (if ''returnfig'' \<in> set (map fst params)
      then Inl (TypeError ''got multiple values for keyword argument'')
      else mpf_plot lib chart_data params)"

text \<open>
  The image files written, newest first, and the directories created for them.
  \<open>os.makedirs\<close> of the empty path raises.
  Whatever the search for a font does, \<open>savefig\<close> is called once; failures of the
  disk are outside the model.
\<close>

record 'f img_fs =
  img_dirs :: "string list"
  img_files :: "(string \<times> 'f figure) list"

definition save_figure ::
  "'f img_fs \<Rightarrow> 'f figure \<Rightarrow> string option \<Rightarrow> (py_error + string option) \<times> 'f img_fs" where
  "save_figure fs fig save_path =
     (case save_path of
        None \<Rightarrow> (Inr None, fs)
      | Some p \<Rightarrow>
          if p = [] then (Inr None, fs)
          else if dirname p = [] then (Inl (FileNotFoundError []), fs)
          else (Inr (Some p),
                fs\<lparr>img_dirs := dirname p # img_dirs fs, img_files := (p, fig) # img_files fs\<rparr>))"

text \<open>Lines 148 to 151: a string is read as a CSV file, a table is taken as it is.\<close>

definition load_input :: "'f chart_lib \<Rightarrow> chart_input \<Rightarrow> py_error + frame" where
  "load_input lib data = (case data of CsvPath p \<Rightarrow> read_csv lib p | Table t \<Rightarrow> Inr t)"

definition generate_chart ::
  "'f chart_lib \<Rightarrow> 'f img_fs \<Rightarrow> chart_input \<Rightarrow> string \<Rightarrow> string option \<Rightarrow> bool \<Rightarrow> string
     \<Rightarrow> real \<times> real \<Rightarrow> string option \<Rightarrow> (string \<times> pval) list
     \<Rightarrow> (py_error + 'f figure \<times> string option) \<times> 'f img_fs" where
  "generate_chart lib fs data chart_type title volume style figsize save_path kwargs =
     (case load_input lib data of
        Inl e \<Rightarrow> (Inl e, fs)
      | Inr df \<Rightarrow>
     (case prepare_data (pandas lib) df of
        Inl e \<Rightarrow> (Inl e, fs)
      | Inr chart_data \<Rightarrow>
     (case chart_title_for lib df chart_data title of
        Inl e \<Rightarrow> (Inl e, fs)
      | Inr ttl \<Rightarrow>
     (case (case plot_attempt lib chart_data
                   (plot_params chart_type volume style figsize ttl kwargs) of
              Inr f \<Rightarrow> Inr (MpfFigure f)
            | Inl e \<Rightarrow>
                (case fallback_plot lib chart_data ttl volume figsize of
                   Inl e' \<Rightarrow> Inl e'
                 | Inr fb \<Rightarrow> Inr (FallbackFigure fb))) of
        Inl e \<Rightarrow> (Inl e, fs)
      | Inr fig \<Rightarrow>
          (case save_figure fs fig save_path of
             (Inl e, fs1) \<Rightarrow> (Inl e, fs1)
           | (Inr saved_path, fs1) \<Rightarrow> (Inr (fig, saved_path), fs1))))))"

subsection \<open>\<open>generate_chart_from_stock\<close> and \<open>generate_multiple_charts\<close>\<close>

text \<open>
  Both are modelled for calls without extra keyword arguments. The state they thread is
  the image files and the requests sent so far.
\<close>

definition generate_chart_from_stock ::
  "tushare_api \<Rightarrow> 'f chart_lib \<Rightarrow> 'f img_fs \<Rightarrow> request list
     \<Rightarrow> string option \<Rightarrow> string option \<Rightarrow> string option \<Rightarrow> string option
     \<Rightarrow> string \<Rightarrow> string option \<Rightarrow> bool \<Rightarrow> string \<Rightarrow> real \<times> real
     \<Rightarrow> string \<Rightarrow> string option
     \<Rightarrow> (py_error + 'f figure option \<times> frame \<times> string option) \<times> 'f img_fs \<times> request list" where
  "generate_chart_from_stock api lib fs rq stock_name stock_code start_date end_date
     chart_type title volume style figsize output_dir filename =
     (case get_stock_data api stock_name stock_code start_date end_date rq of
        (Inl e, rq1) \<Rightarrow> (Inl e, fs, rq1)
      | (Inr df, rq1) \<Rightarrow>
          if frame_empty df then (Inr (None, df, None), fs, rq1)
          else
            (let fname =
                   (case filename of
                      Some f \<Rightarrow> f
                    | None \<Rightarrow>
                        (case py_or (py_or stock_name stock_code) (Some ''unknown'') of
                           Some n \<Rightarrow> n | None \<Rightarrow> [])
                        @ ''_'' @ chart_type @ ''_'' @ start_or_default start_date
                        @ ''_'' @ end_or_default api end_date @ ''.png'');
                 save_path = path_join output_dir fname
             in case generate_chart lib fs (Table df) chart_type title volume style figsize
                       (Some save_path) [] of
                  (Inl e, fs1) \<Rightarrow> (Inl e, fs1, rq1)
                | (Inr (fig, saved_path), fs1) \<Rightarrow> (Inr (Some fig, df, saved_path), fs1, rq1)))"

text \<open>
  An element of \<open>stock_list\<close> is a name or a dict with the optional keys \<open>name\<close>,
  \<open>code\<close>, \<open>start_date\<close> and \<open>end_date\<close>.
\<close>

datatype stock_item =
    StockName string
  | StockDict "string option" "string option" "string option" "string option"

text \<open>
  An entry of the list \<open>generate_multiple_charts\<close> returns: a chart that was drawn and
  saved (name, chart type, number of rows, path) or a failure (name, chart type, the
  exception).
\<close>

datatype chart_result =
    ChartSaved "string option" string nat string
  | ChartFailed "string option" string py_error

text \<open>Lines 382 to 407: one stock and one chart type; the \<open>try\<close> catches every exception.\<close>

definition chart_one ::
  "tushare_api \<Rightarrow> 'f chart_lib \<Rightarrow> string \<Rightarrow> string option \<Rightarrow> string option \<Rightarrow> string option
     \<Rightarrow> string option \<Rightarrow> string \<Rightarrow> chart_result list \<times> 'f img_fs \<times> request list
     \<Rightarrow> chart_result list \<times> 'f img_fs \<times> request list" where
  "chart_one api lib output_dir stock_name stock_code start_date end_date chart_type st =
     (case st of
        (results, fs, rq) \<Rightarrow>
          (case generate_chart_from_stock api lib fs rq stock_name stock_code start_date end_date
                  chart_type None True ''yahoo'' (12, 8) output_dir None of
             (Inl e, fs1, rq1) \<Rightarrow>
               (results @ [ChartFailed (py_or stock_name stock_code) chart_type e], fs1, rq1)
           | (Inr (fig, df, saved_path), fs1, rq1) \<Rightarrow>
               (case (fig, saved_path) of
                  (Some f, Some p) \<Rightarrow>
                    if p \<noteq> []
                    then (results @ [ChartSaved (py_or stock_name stock_code) chart_type
                                       (length (rows df)) p], fs1, rq1)
                    else (results, fs1, rq1)
                | _ \<Rightarrow> (results, fs1, rq1))))"

text \<open>Lines 367 to 379: the outer loop over the stocks, the inner one over the chart types.\<close>

definition charts_of_item ::
  "tushare_api \<Rightarrow> 'f chart_lib \<Rightarrow> string \<Rightarrow> string list \<Rightarrow> stock_item
     \<Rightarrow> chart_result list \<times> 'f img_fs \<times> request list
     \<Rightarrow> chart_result list \<times> 'f img_fs \<times> request list" where
  "charts_of_item api lib output_dir chart_types stock st =
     (case stock of
        StockName s \<Rightarrow>
          foldl (\<lambda>acc chart_type. chart_one api lib output_dir (Some s) None None None chart_type acc)
            st chart_types
      | StockDict nm code start_date end_date \<Rightarrow>
          foldl (\<lambda>acc chart_type. chart_one api lib output_dir nm code start_date end_date
                   chart_type acc)
            st chart_types)"

definition generate_multiple_charts ::
  "tushare_api \<Rightarrow> 'f chart_lib \<Rightarrow> 'f img_fs \<Rightarrow> request list \<Rightarrow> stock_item list \<Rightarrow> string list
     \<Rightarrow> string \<Rightarrow> chart_result list \<times> 'f img_fs \<times> request list" where
  "generate_multiple_charts api lib fs rq stock_list chart_types output_dir =
     foldl (\<lambda>acc stock. charts_of_item api lib output_dir chart_types stock acc)
       ([], fs, rq) stock_list"

section \<open>Predicates of the specification on the manual rendering\<close>






section \<open>A charting library for the scenarios\<close>


definition scenario_chart_lib :: "unit chart_lib" where
  "scenario_chart_lib =
     \<lparr>pandas = scenario_pandas,
      strftime = (\<lambda>t. if t = 20230103 then ''2023-01-03''
                       else if t = 20230104 then ''2023-01-04'' else ''other day''),
      mpf_plot = (\<lambda>d p. Inl (LibError ''glyph missing from font'')),
      read_csv = (\<lambda>p. Inl (FileNotFoundError p)),
      iterrows_cast = (\<lambda>d cells. cells)\<rparr>"

definition no_images :: "unit img_fs" where
  "no_images = \<lparr>img_dirs = [], img_files = []\<rparr>"


section \<open>Predicates and inputs for the batch scenario\<close>

text \<open>
  \<open>chart_succeeds api lib output_dir a chart_type\<close>: a chart of this type for the
  stock named \<open>a\<close> succeeds, whatever was drawn and requested before:
  \<open>generate_chart_from_stock\<close> returns a figure and the path it saved it under.
  \<open>scenario_chart_lib_ok\<close> is a charting library whose \<open>mpf.plot\<close> succeeds;
  \<open>scenario_fetched\<close> is what \<open>get_stock_data\<close> returns for \<open>MOUTAI\<close> on the
  scenario's remote source and \<open>scenario_fetched_chart\<close> what \<open>prepare_data\<close>
  makes of it.
\<close>

definition chart_succeeds ::
  "tushare_api \<Rightarrow> 'f chart_lib \<Rightarrow> string \<Rightarrow> string \<Rightarrow> string \<Rightarrow> bool" where
  "chart_succeeds api lib output_dir a chart_type =
     (\<forall>fs rq. \<exists>fig df p fs' rq'.
        generate_chart_from_stock api lib fs rq (Some a) None None None chart_type None True
          ''yahoo'' (12, 8) output_dir None = (Inr (Some fig, df, Some p), fs', rq')
        \<and> p \<noteq> [])"

definition scenario_chart_lib_ok :: "unit chart_lib" where
  "scenario_chart_lib_ok = scenario_chart_lib\<lparr>mpf_plot := (\<lambda>d p. Inr ())\<rparr>"

definition scenario_fetched :: frame where
  "scenario_fetched =
     \<lparr>index_name = None,
      columns = [''ts_code'', ''trade_date'', ''open'', ''high'', ''low'', ''close'', ''vol'',
                 ''stock_name''],
      rows = [(Num 1, [Str ''600519.SH'', Str ''20230103'', Num 1731, Num 1738, Num 1706,
                       Num 1730, Num 26034, Str ''MOUTAI'']),
              (Num 0, [Str ''600519.SH'', Str ''20230104'', Num 1730, Num 1738, Num 1716,
                       Num 1735, Num 20415, Str ''MOUTAI''])]\<rparr>"

definition scenario_fetched_chart :: frame where
  "scenario_fetched_chart =
     \<lparr>index_name = Some ''Date'',
      columns = [''ts_code'', ''trade_date'', ''Open'', ''High'', ''Low'', ''Close'', ''Volume'',
                 ''stock_name''],
      rows = [(Ts 20230103, [Str ''600519.SH'', Str ''20230103'', Num 1731, Num 1738, Num 1706,
                       Num 1730, Num 26034, Str ''MOUTAI'']),
              (Ts 20230104, [Str ''600519.SH'', Str ''20230104'', Num 1730, Num 1738, Num 1716,
                       Num 1735, Num 20415, Str ''MOUTAI''])]\<rparr>"

section \<open>Properties of the symbol resolver\<close>

lemma match_here_prefix: "CHR ''.'' \<notin> set pat \<Longrightarrow> match_here pat s = prefix pat s"
  by (induction pat s rule: match_here.induct) (auto simp: atom_matches_def)

lemma dot_search_sublist: "CHR ''.'' \<notin> set pat \<Longrightarrow> dot_search pat s = sublist pat s"
proof (induction s)
  case Nil
  then show ?case by (cases pat) auto
next
  case (Cons c cs)
  then show ?case by (simp add: match_here_prefix sublist_Cons_right)
qed

lemma re_plain_no_dot: "re_plain pat \<Longrightarrow> CHR ''.'' \<notin> set pat"
  by (auto simp: re_plain_def re_special_def list_all_iff)

lemma re_compile_plain: "re_plain pat \<Longrightarrow> re_compile ro pat = Inr (dot_search pat)"
  by (cases pat) (auto simp: re_compile_def re_plain_def re_special_def list_all_iff)

lemma filter_zip_flags: "map fst (filter snd (zip xs (map f xs))) = filter f xs"
  by (induction xs) auto

text \<open>
  On a name with no regular-expression metacharacter the code does what the
  specification describes: exact match first, then the first entry that contains the
  name, then the not-found error; one directory request in every case.
\<close>

lemma resolve_plain:
  assumes "stock_basic api = Inr dir" and "re_plain nm"
  shows "get_stock_code_by_name api nm rq = (resolve_spec dir nm, rq @ [StockBasicList])"
proof -
  have m: "(case_option False (dot_search nm) \<circ> name)
         = (\<lambda>e. case name e of None \<Rightarrow> False | Some s \<Rightarrow> sublist nm s)"
    using assms(2) by (auto simp: fun_eq_iff dot_search_sublist re_plain_no_dot split: option.splits)
  show ?thesis
    using assms
    by (auto simp: get_stock_code_by_name_def resolve_spec_def str_contains_def re_compile_plain
        m filter_zip_flags Let_def split: list.splits sum.splits)
qed

lemma resolve_plain_example:
  "get_stock_code_by_name scenario_api ''MOUTAI'' [] = (Inr ''600519.SH'', [StockBasicList])"
  using resolve_plain [of scenario_api scenario_dir "''MOUTAI''" "[]"]
  by (simp add: scenario_api_def scenario_dir_def resolve_spec_def re_plain_def re_special_def
      sublist_code)

text \<open>
  C1. The resolver returns the ticker of the exact match, else of the first entry whose
  display name contains the queried name as a substring, else raises the not-found
  error. The code searches with a regular expression instead of a substring test, so the
  claim fails on names with metacharacters. With the directory entry
  \<open>*ST ALPHA\<close>, the query \<open>*ST\<close> is a substring of the entry's name, and the
  code raises \<open>re.error\<close> where the claim promises the entry's ticker. With the
  directory entry \<open>AXB\<close>, the query \<open>A.B\<close> matches nothing under both strategies
  of the claim, and the code returns the entry's ticker where the claim promises the
  not-found error.
\<close>

theorem C1_regex_not_substring:
  "get_stock_code_by_name
     (api\<lparr>stock_basic := Inr [\<lparr>ts_code = ''000001.SZ'', name = Some ''*ST ALPHA''\<rparr>]\<rparr>) ''*ST'' rq
     = (Inl (ReError ''nothing to repeat at position 0''), rq @ [StockBasicList])
   \<and> resolve_spec [\<lparr>ts_code = ''000001.SZ'', name = Some ''*ST ALPHA''\<rparr>] ''*ST'' = Inr ''000001.SZ''
   \<and> get_stock_code_by_name
     (api\<lparr>stock_basic := Inr [\<lparr>ts_code = ''600000.SH'', name = Some ''AXB''\<rparr>]\<rparr>) ''A.B'' rq
     = (Inr ''600000.SH'', rq @ [StockBasicList])
   \<and> resolve_spec [\<lparr>ts_code = ''600000.SH'', name = Some ''AXB''\<rparr>] ''A.B''
     = Inl (StockNameNotFound ''A.B'')"
  by (simp add: get_stock_code_by_name_def resolve_spec_def str_contains_def re_compile_def
      re_special_def atom_matches_def sublist_code)

section \<open>Properties of the fetcher\<close>

lemma get_stock_code_by_name_log:
  "snd (get_stock_code_by_name api nm rq) = rq @ [StockBasicList]"
  by (simp add: get_stock_code_by_name_def Let_def split: sum.splits list.splits)

text \<open>
  C7. When neither a stock name nor a ticker code is supplied (each is \<open>None\<close> or the
  empty string), \<open>get_stock_data\<close> raises the missing-identifier error, and the list of
  requests sent to the remote API is the one it started with: no request was issued.
\<close>

theorem C7_missing_identifier:
  assumes "\<not> truthy stock_name" and "\<not> truthy stock_code"
  shows "get_stock_data api stock_name stock_code start_date end_date rq
           = (Inl MissingStockIdentifier, rq)"
  using assms by (simp add: get_stock_data_def)

theorem C7_missing_identifier_witness:
  "get_stock_data scenario_api None (Some []) (Some ''20230101'') None []
     = (Inl MissingStockIdentifier, [])"
  using C7_missing_identifier [of None "Some []" scenario_api "Some ''20230101''" None "[]"]
  by simp

text \<open>
  C10. When both a non-empty stock name and a ticker code are supplied, the argument
  check does not raise and the supplied code is ignored: the call behaves in every
  respect (result and requests) as the call with the name alone. The name is resolved
  through the symbol directory, which is the first request; when that request is
  answered and the name has no regular-expression metacharacter, the resolution is the
  one the specification describes. When the resolution raises, the call raises that
  error and sends no other request, whatever the supplied code. When it returns a
  ticker, the daily rows are requested for that ticker, with the dates or their
  defaults, and the result is the error of that request, the empty table when the
  answer is empty, and otherwise the rows sorted by \<open>trade_date\<close> (or the error of
  the sort) with the supplied name written into the \<open>stock_name\<close> column.
\<close>

theorem C10_name_takes_precedence:
  assumes "nm \<noteq> []"
  shows "get_stock_data api (Some nm) stock_code start_date end_date rq
           = get_stock_data api (Some nm) None start_date end_date rq
         \<and> get_stock_data api (Some nm) stock_code start_date end_date rq
             \<noteq> (Inl MissingStockIdentifier, rq)
         \<and> (\<exists>rest. snd (get_stock_data api (Some nm) stock_code start_date end_date rq)
               = rq @ StockBasicList # rest)
         \<and> (\<forall>dir. stock_basic api = Inr dir \<and> re_plain nm \<longrightarrow>
               fst (get_stock_code_by_name api nm rq) = resolve_spec dir nm)
         \<and> (\<forall>e. fst (get_stock_code_by_name api nm rq) = Inl e \<longrightarrow>
               get_stock_data api (Some nm) stock_code start_date end_date rq
                 = (Inl e, rq @ [StockBasicList]))
         \<and> (\<forall>c. fst (get_stock_code_by_name api nm rq) = Inr c \<longrightarrow>
               snd (get_stock_data api (Some nm) stock_code start_date end_date rq)
                 = rq @ [StockBasicList,
                         Daily c (start_or_default start_date) (end_or_default api end_date)]
               \<and> fst (get_stock_data api (Some nm) stock_code start_date end_date rq)
                 = (case daily api c (start_or_default start_date) (end_or_default api end_date) of
                      Inl e \<Rightarrow> Inl e
                    | Inr df \<Rightarrow>
                        if frame_empty df then Inr empty_frame
                        else (case sort_values df ''trade_date'' of
                                Inl e \<Rightarrow> Inl e
                              | Inr sorted_df \<Rightarrow>
                                  Inr (set_col_scalar sorted_df ''stock_name'' (Str nm)))))"
proof -
  obtain r where r: "get_stock_code_by_name api nm rq = (r, rq @ [StockBasicList])"
    using get_stock_code_by_name_log [of api nm rq]
    by (cases "get_stock_code_by_name api nm rq") simp
  have 1: "get_stock_data api (Some nm) stock_code start_date end_date rq
             = get_stock_data api (Some nm) None start_date end_date rq"
    using assms by (simp add: get_stock_data_def)
  have 3: "\<exists>rest. snd (get_stock_data api (Some nm) stock_code start_date end_date rq)
             = rq @ StockBasicList # rest"
    using assms r by (auto simp: get_stock_data_def Let_def split: sum.splits)
  then have 2: "get_stock_data api (Some nm) stock_code start_date end_date rq
             \<noteq> (Inl MissingStockIdentifier, rq)"
    by auto
  have 4: "\<forall>dir. stock_basic api = Inr dir \<and> re_plain nm \<longrightarrow>
             fst (get_stock_code_by_name api nm rq) = resolve_spec dir nm"
    by (simp add: resolve_plain)
  have 5: "\<forall>e. fst (get_stock_code_by_name api nm rq) = Inl e \<longrightarrow>
             get_stock_data api (Some nm) stock_code start_date end_date rq
               = (Inl e, rq @ [StockBasicList])"
    using assms r by (simp add: get_stock_data_def)
  have 6: "\<forall>c. fst (get_stock_code_by_name api nm rq) = Inr c \<longrightarrow>
             snd (get_stock_data api (Some nm) stock_code start_date end_date rq)
               = rq @ [StockBasicList,
                       Daily c (start_or_default start_date) (end_or_default api end_date)]
             \<and> fst (get_stock_data api (Some nm) stock_code start_date end_date rq)
               = (case daily api c (start_or_default start_date) (end_or_default api end_date) of
                    Inl e \<Rightarrow> Inl e
                  | Inr df \<Rightarrow>
                      if frame_empty df then Inr empty_frame
                      else (case sort_values df ''trade_date'' of
                              Inl e \<Rightarrow> Inl e
                            | Inr sorted_df \<Rightarrow>
                                Inr (set_col_scalar sorted_df ''stock_name'' (Str nm))))"
    using assms r by (simp add: get_stock_data_def Let_def split: sum.splits)
  from 1 2 3 4 5 6 show ?thesis by blast
qed

theorem C10_name_takes_precedence_witness:
  "get_stock_data scenario_api (Some ''PINGAN BANK'') (Some ''600519.SH'') None None []
     = (Inr empty_frame, [StockBasicList, Daily ''000001.SZ'' ''20100101'' ''20240101''])"
proof -
  have 1: "get_stock_code_by_name scenario_api ''PINGAN BANK'' []
             = (Inr ''000001.SZ'', [StockBasicList])"
    by (simp add: get_stock_code_by_name_def scenario_api_def scenario_dir_def)
  have 2: "daily scenario_api ''000001.SZ'' ''20100101'' ''20240101''
             = Inr (scenario_frame\<lparr>rows := []\<rparr>)"
    by (simp add: scenario_api_def)
  have 3: "start_or_default None = ''20100101''"
    "end_or_default scenario_api None = ''20240101''"
    by (simp_all add: start_or_default_def end_or_default_def scenario_api_def)
  have 4: "frame_empty (scenario_frame\<lparr>rows := []\<rparr>)" by (simp add: frame_empty_def)
  have "\<forall>c. fst (get_stock_code_by_name scenario_api ''PINGAN BANK'' []) = Inr c \<longrightarrow>
          snd (get_stock_data scenario_api (Some ''PINGAN BANK'') (Some ''600519.SH'') None None [])
            = [] @ [StockBasicList,
                    Daily c (start_or_default None) (end_or_default scenario_api None)]
          \<and> fst (get_stock_data scenario_api (Some ''PINGAN BANK'') (Some ''600519.SH'') None
                   None [])
            = (case daily scenario_api c (start_or_default None)
                      (end_or_default scenario_api None) of
                 Inl e \<Rightarrow> Inl e
               | Inr df \<Rightarrow>
                   if frame_empty df then Inr empty_frame
                   else (case sort_values df ''trade_date'' of
                           Inl e \<Rightarrow> Inl e
                         | Inr sorted_df \<Rightarrow>
                             Inr (set_col_scalar sorted_df ''stock_name''
                                    (Str ''PINGAN BANK''))))"
    using C10_name_takes_precedence [of "''PINGAN BANK''" scenario_api "Some ''600519.SH''" None
        None "[]"]
    by blast
  then show ?thesis
    by (simp add: 1 2 3 4 prod_eq_iff)
qed

text \<open>
  The claim as the specification words it (the call does not raise) fails when the name
  resolves to nothing: with the name \<open>NOSUCH\<close> and the code \<open>600519.SH\<close>, for which
  the call with the code alone returns rows, the call raises the not-found error of the
  name resolution.
\<close>

theorem C10_fetch_raises_counterexample:
  "get_stock_data scenario_api (Some ''NOSUCH'') (Some ''600519.SH'') None None []
     = (Inl (StockNameNotFound ''NOSUCH''), [StockBasicList])
   \<and> fst (get_stock_data scenario_api None (Some ''600519.SH'') None None [])
     = Inr \<lparr>index_name = None,
            columns = [''ts_code'', ''trade_date'', ''open'', ''high'', ''low'', ''close'',
                       ''vol'', ''stock_name''],
            rows = [(Num 1, [Str ''600519.SH'', Str ''20230103'', Num 1731, Num 1738,
                             Num 1706, Num 1730, Num 26034, Str ''KWEICHOW MOUTAI'']),
                    (Num 0, [Str ''600519.SH'', Str ''20230104'', Num 1730, Num 1738,
                             Num 1716, Num 1735, Num 20415, Str ''KWEICHOW MOUTAI''])]\<rparr>"
  by (simp add: get_stock_data_def get_stock_code_by_name_def scenario_api_def scenario_dir_def
      str_contains_def re_compile_def re_special_def atom_matches_def annotate_by_code_def
      start_or_default_def end_or_default_def frame_empty_def sort_values_def
      scenario_frame_def same_kind_def cell_at_def set_col_scalar_def set_col_def)

text \<open>
  C4. When the call reaches the remote source (the identifier is a ticker code, or a
  name the directory resolves) and the source has no rows for the requested range,
  \<open>get_stock_data\<close> returns the empty table and no error; \<open>save_to_csv\<close> on that
  table returns \<open>None\<close> and leaves the file system as it was.
\<close>

theorem C4_empty_remote_result:
  assumes "(\<exists>nm. stock_name = Some nm \<and> nm \<noteq> []
               \<and> fst (get_stock_code_by_name api nm rq) = Inr code)
           \<or> (\<not> truthy stock_name \<and> stock_code = Some code \<and> code \<noteq> [])"
    and "daily api code (start_or_default start_date) (end_or_default api end_date) = Inr df"
    and "rows df = []"
  shows "fst (get_stock_data api stock_name stock_code start_date end_date rq) = Inr empty_frame
         \<and> frame_empty empty_frame
         \<and> save_to_csv fmt fs empty_frame filename output_dir = (Inr None, fs)"
proof -
  have e: "frame_empty df" using assms(3) by (simp add: frame_empty_def)
  have s: "frame_empty empty_frame" by (simp add: frame_empty_def empty_frame_def)
  from assms(1)
  have "fst (get_stock_data api stock_name stock_code start_date end_date rq) = Inr empty_frame"
  proof
    assume "\<exists>nm. stock_name = Some nm \<and> nm \<noteq> []
              \<and> fst (get_stock_code_by_name api nm rq) = Inr code"
    then obtain nm rq1 where "stock_name = Some nm" "nm \<noteq> []"
      "get_stock_code_by_name api nm rq = (Inr code, rq1)"
      by (metis prod.collapse)
    then show ?thesis using assms(2) e by (simp add: get_stock_data_def Let_def)
  next
    assume "\<not> truthy stock_name \<and> stock_code = Some code \<and> code \<noteq> []"
    then show ?thesis using assms(2) e
      by (cases stock_name) (auto simp: get_stock_data_def Let_def)
  qed
  then show ?thesis using s by (simp add: save_to_csv_def)
qed

theorem C4_empty_remote_result_witness:
  "fst (get_stock_data scenario_api None (Some ''000001.SZ'') (Some ''20230101'')
         (Some ''20231231'') [])
     = Inr empty_frame
   \<and> frame_empty empty_frame
   \<and> save_to_csv (\<lambda>c. []) \<lparr>dirs = [], files = []\<rparr> empty_frame None ''stock_data''
       = (Inr None, \<lparr>dirs = [], files = []\<rparr>)"
  using C4_empty_remote_result [where stock_name = None and api = scenario_api and rq = "[]"
      and code = "''000001.SZ''" and stock_code = "Some ''000001.SZ''"
      and start_date = "Some ''20230101''" and end_date = "Some ''20231231''"
      and df = "scenario_frame\<lparr>rows := []\<rparr>" and fmt = "\<lambda>c. []"
      and fs = "\<lparr>dirs = [], files = []\<rparr>" and filename = None
      and output_dir = "''stock_data''"]
  by (simp add: scenario_api_def start_or_default_def end_or_default_def)

section \<open>Properties of tables\<close>

lemma col_pos_None: "col_pos c cs = None \<longleftrightarrow> c \<notin> set cs"
  by (induction cs) (auto split: option.splits)

lemma col_pos_Some: "col_pos c cs = Some k \<Longrightarrow> k < length cs \<and> cs ! k = c"
  by (induction cs arbitrary: k) (auto split: if_splits option.splits)

lemma col_pos_append_new: "c \<notin> set cs \<Longrightarrow> col_pos c (cs @ [c]) = Some (length cs)"
  by (induction cs) auto

lemma col_pos_append_old: "col_pos c cs = Some k \<Longrightarrow> col_pos c (cs @ ds) = Some k"
  by (induction cs arbitrary: k) (auto split: if_splits option.splits)

lemma inj_cell_key: "cell_key a = cell_key b \<Longrightarrow> a = b"
  by (cases a; cases b) auto

lemma rows_zip_replicate:
  "map (\<lambda>(r, v). f r v) (zip rs (replicate (length rs) v)) = map (\<lambda>r. f r v) rs"
  by (simp add: zip_replicate2)

lemma map_const_replicate: "(\<And>x. x \<in> set xs \<Longrightarrow> f x = v) \<Longrightarrow> map f xs = replicate (length xs) v"
  by (induction xs) auto

lemma set_col_scalar_unfold:
  "set_col_scalar df c v =
     (case col_pos c (columns df) of
        Some k \<Rightarrow> df\<lparr>rows := map (\<lambda>r. (fst r, (snd r)[k := v])) (rows df)\<rparr>
      | None \<Rightarrow> df\<lparr>columns := columns df @ [c],
                   rows := map (\<lambda>r. (fst r, snd r @ [v])) (rows df)\<rparr>)"
  by (simp add: set_col_scalar_def set_col_def zip_replicate2 comp_def split: option.splits)

lemma wf_frame_row: "wf_frame df \<Longrightarrow> r \<in> set (rows df) \<Longrightarrow> length (snd r) = length (columns df)"
  by (simp add: wf_frame_def list_all_iff)

text \<open>Reading a column back after a scalar assignment.\<close>

lemma get_col_set_col_scalar_same:
  assumes "wf_frame df"
  shows "get_col (set_col_scalar df c v) c = Inr (replicate (length (rows df)) v)"
proof (cases "col_pos c (columns df)")
  case None
  then have "c \<notin> set (columns df)" by (simp add: col_pos_None)
  then have p: "col_pos c (columns df @ [c]) = Some (length (columns df))"
    by (rule col_pos_append_new)
  have "map (\<lambda>r. cell_at (snd r @ [v]) (length (columns df))) (rows df)
          = replicate (length (rows df)) v"
    by (rule map_const_replicate) (simp add: cell_at_def wf_frame_row [OF assms] nth_append)
  then show ?thesis
    using None p by (simp add: set_col_scalar_unfold get_col_def comp_def)
next
  case (Some k)
  then have k: "k < length (columns df)" by (auto dest: col_pos_Some)
  have "map (\<lambda>r. cell_at ((snd r)[k := v]) k) (rows df) = replicate (length (rows df)) v"
    by (rule map_const_replicate) (simp add: cell_at_def wf_frame_row [OF assms] k)
  then show ?thesis
    using Some by (simp add: set_col_scalar_unfold get_col_def comp_def)
qed

lemma get_col_set_col_scalar_other:
  assumes "wf_frame df" and "c' \<noteq> c" and "get_col df c' = Inr cs"
  shows "get_col (set_col_scalar df c v) c' = Inr cs"
proof -
  from assms(3) obtain k' where k': "col_pos c' (columns df) = Some k'"
    and cs: "cs = map (\<lambda>r. cell_at (snd r) k') (rows df)"
    by (auto simp: get_col_def split: option.splits)
  have k'l: "k' < length (columns df)" using k' by (auto dest: col_pos_Some)
  show ?thesis
  proof (cases "col_pos c (columns df)")
    case None
    have "map (\<lambda>r. cell_at (snd r @ [v]) k') (rows df) = cs"
      unfolding cs using k'l
      by (intro map_cong) (simp_all add: cell_at_def wf_frame_row [OF assms(1)] nth_append)
    then show ?thesis
      using None k' by (simp add: set_col_scalar_unfold get_col_def comp_def col_pos_append_old)
  next
    case (Some k)
    have "k \<noteq> k'" using Some k' assms(2) by (auto dest: col_pos_Some)
    then have "map (\<lambda>r. cell_at ((snd r)[k := v]) k') (rows df) = cs"
      unfolding cs by (intro map_cong) (simp_all add: cell_at_def)
    then show ?thesis
      using Some k' by (simp add: set_col_scalar_unfold get_col_def comp_def)
  qed
qed

lemma rows_set_col_scalar: "length (rows (set_col_scalar df c v)) = length (rows df)"
  by (auto simp: set_col_scalar_def set_col_def split: option.splits)

text \<open>Sorting by a column: the rows are permuted, the sorted column is ascending.\<close>

lemma sort_values_rows:
  assumes "sort_values df c = Inr sd"
  shows "set (rows sd) = set (rows df) \<and> length (rows sd) = length (rows df)
         \<and> columns sd = columns df \<and> index_name sd = index_name df"
  using assms by (auto simp: sort_values_def split: option.splits if_splits)

lemma sort_values_wf: "wf_frame df \<Longrightarrow> sort_values df c = Inr sd \<Longrightarrow> wf_frame sd"
  by (fastforce simp: sort_values_def wf_frame_def list_all_iff split: option.splits if_splits)

lemma sort_values_sorted:
  assumes "sort_values df c = Inr sd"
  shows "\<exists>cs. get_col sd c = Inr cs \<and> sorted (map cell_key cs)"
proof -
  from assms obtain k where k: "col_pos c (columns df) = Some k"
    and sd: "sd = df\<lparr>rows := sort_key (\<lambda>r. cell_key (cell_at (snd r) k)) (rows df)\<rparr>"
    by (auto simp: sort_values_def split: option.splits if_splits)
  have "sorted (map (\<lambda>r. cell_key (cell_at (snd r) k))
                 (sort_key (\<lambda>r. cell_key (cell_at (snd r) k)) (rows df)))"
    by (rule sorted_sort_key)
  then show ?thesis using k sd by (simp add: get_col_def comp_def)
qed

lemma sort_values_const_col:
  assumes "sort_values df c = Inr sd" and "get_col df c' = Inr (replicate (length (rows df)) v)"
  shows "get_col sd c' = Inr (replicate (length (rows sd)) v)"
proof -
  from assms(2) obtain k where k: "col_pos c' (columns df) = Some k"
    and m: "map (\<lambda>r. cell_at (snd r) k) (rows df) = replicate (length (rows df)) v"
    by (auto simp: get_col_def split: option.splits)
  have "\<And>r. r \<in> set (rows df) \<Longrightarrow> cell_at (snd r) k = v"
  proof -
    fix r assume "r \<in> set (rows df)"
    then have "cell_at (snd r) k \<in> set (map (\<lambda>r. cell_at (snd r) k) (rows df))" by auto
    then show "cell_at (snd r) k = v" unfolding m by simp
  qed
  then have "\<And>r. r \<in> set (rows sd) \<Longrightarrow> cell_at (snd r) k = v"
    using sort_values_rows [OF assms(1)] by simp
  then have "map (\<lambda>r. cell_at (snd r) k) (rows sd) = replicate (length (rows sd)) v"
    by (rule map_const_replicate)
  then show ?thesis using k sort_values_rows [OF assms(1)] by (simp add: get_col_def)
qed

lemma sort_values_distinct:
  assumes "sort_values df c = Inr sd" and "get_col df c = Inr ds" and "distinct ds"
    and "get_col sd c = Inr cs"
  shows "distinct cs"
proof -
  from assms(1) obtain k where k: "col_pos c (columns df) = Some k"
    and sd: "sd = df\<lparr>rows := sort_key (\<lambda>r. cell_key (cell_at (snd r) k)) (rows df)\<rparr>"
    by (auto simp: sort_values_def split: option.splits if_splits)
  have ds: "ds = map (\<lambda>r. cell_at (snd r) k) (rows df)"
    using assms(2) k by (simp add: get_col_def)
  have cs: "cs = map (\<lambda>r. cell_at (snd r) k) (rows sd)"
    using assms(4) k sd by (simp add: get_col_def)
  have "distinct (map (\<lambda>r. cell_at (snd r) k) (rows df))"
    using assms(3) ds by simp
  then have "distinct (map (\<lambda>r. cell_at (snd r) k) (rows sd))"
    unfolding sd by (simp add: distinct_map)
  then show ?thesis using cs by simp
qed

lemma distinct_label_once: "distinct cs \<Longrightarrow> length (filter (\<lambda>x. x = c) cs) \<le> 1"
  by (induction cs) (auto simp: filter_empty_conv)

lemma sort_values_ok:
  assumes "distinct (columns df)" and "get_col df c = Inr ds" and "same_kind ds"
  shows "\<exists>sd. sort_values df c = Inr sd"
  using assms distinct_label_once [of "columns df" c]
  by (auto simp: sort_values_def get_col_def split: option.splits)

section \<open>Sorting and annotation of fetched rows\<close>

lemma sorted_part:
  assumes wf: "wf_frame df"
    and dates: "get_col df ''trade_date'' = Inr ds" "same_kind ds"
  shows "\<exists>sd. sort_values df ''trade_date'' = Inr sd \<and> wf_frame sd
           \<and> columns sd = columns df
           \<and> dates_ascending sd
           \<and> (distinct ds \<longrightarrow> dates_strictly_ascending sd)
           \<and> (all_ticker df code \<longrightarrow> all_ticker sd code)"
proof -
  have "distinct (columns df)" using wf by (simp add: wf_frame_def)
  from sort_values_ok [OF this dates] obtain sd where sd: "sort_values df ''trade_date'' = Inr sd"
    by blast
  from sort_values_sorted [OF sd] obtain cs where cs: "get_col sd ''trade_date'' = Inr cs"
    and so: "sorted (map cell_key cs)" by blast
  have asc: "dates_ascending sd" using cs so by (simp add: dates_ascending_def)
  have strict: "dates_strictly_ascending sd" if "distinct ds"
  proof -
    have "distinct cs" by (rule sort_values_distinct [OF sd dates(1) that cs])
    then have "distinct (map cell_key cs)"
      by (simp add: distinct_map inj_on_def) (blast dest: inj_cell_key)
    with so have "sorted_wrt (<) (map cell_key cs)" by (simp add: strict_sorted_iff)
    then show ?thesis using cs by (simp add: dates_strictly_ascending_def)
  qed
  have tick: "all_ticker sd code" if "all_ticker df code"
    using sort_values_const_col [OF sd, of "''ts_code''" "Str code"] that
    by (simp add: all_ticker_def)
  show ?thesis
    using sd sort_values_wf [OF wf sd] sort_values_rows [OF sd] asc strict tick by blast
qed

lemma annotate_part:
  assumes "wf_frame sd"
  shows "annotated_with (set_col_scalar sd ''stock_name'' v) v
         \<and> (dates_ascending sd \<longrightarrow> dates_ascending (set_col_scalar sd ''stock_name'' v))
         \<and> (dates_strictly_ascending sd
              \<longrightarrow> dates_strictly_ascending (set_col_scalar sd ''stock_name'' v))
         \<and> (all_ticker sd code \<longrightarrow> all_ticker (set_col_scalar sd ''stock_name'' v) code)"
proof -
  have 1: "get_col (set_col_scalar sd ''stock_name'' v) ''trade_date'' = Inr ds"
    if "get_col sd ''trade_date'' = Inr ds" for ds
    by (rule get_col_set_col_scalar_other [OF assms _ that]) simp
  have 2: "get_col (set_col_scalar sd ''stock_name'' v) ''ts_code'' = Inr cs"
    if "get_col sd ''ts_code'' = Inr cs" for cs
    by (rule get_col_set_col_scalar_other [OF assms _ that]) simp
  have a: "annotated_with (set_col_scalar sd ''stock_name'' v) v"
    using get_col_set_col_scalar_same [OF assms, of "''stock_name''" v]
    by (simp add: annotated_with_def rows_set_col_scalar)
  have b: "dates_ascending (set_col_scalar sd ''stock_name'' v)" if "dates_ascending sd"
    using that 1 by (auto simp: dates_ascending_def split: sum.splits)
  have c: "dates_strictly_ascending (set_col_scalar sd ''stock_name'' v)"
    if "dates_strictly_ascending sd"
    using that 1 by (auto simp: dates_strictly_ascending_def split: sum.splits)
  have d: "all_ticker (set_col_scalar sd ''stock_name'' v) code" if "all_ticker sd code"
    using that 2 by (simp add: all_ticker_def rows_set_col_scalar)
  from a b c d show ?thesis by blast
qed

text \<open>
  C2, as the code has it. The call reaches the remote source (the identifier is a ticker
  code, or a name the directory resolves) and the source answers with a non-empty table
  whose column names are pairwise distinct, with one cell per column in every row, and
  whose trade dates are of one kind (all strings, all numbers or all timestamps, missing
  values aside). Then the call returns the rows in ascending order of date; in strictly
  ascending order when the dates of the remote rows are pairwise distinct; and every row
  carries the requested ticker when every remote row does. A supplied stock name is
  written into every row as the caller passed it. With a ticker code only, the rows get
  the first name the directory answers for the code, the code itself when that request
  raises, and no \<open>stock_name\<close> column is added when the directory answers with no
  row.
\<close>

theorem C2_fetch_sorted_annotated:
  assumes ident: "(\<exists>nm. stock_name = Some nm \<and> nm \<noteq> []
               \<and> fst (get_stock_code_by_name api nm rq) = Inr code)
           \<or> (\<not> truthy stock_name \<and> stock_code = Some code \<and> code \<noteq> [])"
    and d: "daily api code (start_or_default start_date) (end_or_default api end_date) = Inr df"
    and ne: "\<not> frame_empty df"
    and wf: "wf_frame df"
    and dates: "get_col df ''trade_date'' = Inr ds" "same_kind ds"
  shows "\<exists>r. fst (get_stock_data api stock_name stock_code start_date end_date rq) = Inr r
           \<and> dates_ascending r
           \<and> (distinct ds \<longrightarrow> dates_strictly_ascending r)
           \<and> (all_ticker df code \<longrightarrow> all_ticker r code)
           \<and> (\<forall>nm. stock_name = Some nm \<and> nm \<noteq> [] \<longrightarrow> annotated_with r (Str nm))
           \<and> (\<not> truthy stock_name \<longrightarrow>
                (case stock_basic_name api code of
                   Inr (n # ns) \<Rightarrow> annotated_with r n
                 | Inr [] \<Rightarrow> columns r = columns df
                 | Inl e \<Rightarrow> annotated_with r (Str code)))"
proof -
  from sorted_part [OF wf dates, of code] obtain sd
    where sd: "sort_values df ''trade_date'' = Inr sd" and wsd: "wf_frame sd"
      and csd: "columns sd = columns df"
      and asc: "dates_ascending sd"
      and strict: "distinct ds \<longrightarrow> dates_strictly_ascending sd"
      and tick: "all_ticker df code \<longrightarrow> all_ticker sd code"
    by blast
  note an = annotate_part [OF wsd, of _ code]
  from ident show ?thesis
  proof
    assume "\<exists>nm. stock_name = Some nm \<and> nm \<noteq> []
              \<and> fst (get_stock_code_by_name api nm rq) = Inr code"
    then obtain nm rq1 where nm: "stock_name = Some nm" "nm \<noteq> []"
      and r: "get_stock_code_by_name api nm rq = (Inr code, rq1)"
      by (metis prod.collapse)
    have "fst (get_stock_data api stock_name stock_code start_date end_date rq)
            = Inr (set_col_scalar sd ''stock_name'' (Str nm))"
      using nm r d ne sd by (simp add: get_stock_data_def Let_def)
    then show ?thesis using an [of "Str nm"] nm asc strict tick by simp
  next
    assume c: "\<not> truthy stock_name \<and> stock_code = Some code \<and> code \<noteq> []"
    have g: "fst (get_stock_data api stock_name stock_code start_date end_date rq)
            = fst (annotate_by_code api code sd (rq @ [Daily code (start_or_default start_date)
                     (end_or_default api end_date)]))"
      using c d ne sd by (cases stock_name) (auto simp: get_stock_data_def Let_def)
    show ?thesis
    proof (cases "stock_basic_name api code")
      case (Inl e)
      then show ?thesis using g c an [of "Str code"] asc strict tick
        by (auto simp: annotate_by_code_def Let_def)
    next
      case (Inr ns)
      then show ?thesis using g c an [of "hd ns"] asc strict tick csd
        by (cases ns) (auto simp: annotate_by_code_def Let_def)
    qed
  qed
qed

theorem C2_fetch_sorted_annotated_witness:
  "\<exists>r. fst (get_stock_data scenario_api (Some ''MOUTAI'') None (Some ''20230101'')
              (Some ''20231231'') []) = Inr r
     \<and> dates_ascending r
     \<and> dates_strictly_ascending r
     \<and> all_ticker r ''600519.SH''
     \<and> annotated_with r (Str ''MOUTAI'')"
proof -
  have 1: "(\<exists>nm. Some ''MOUTAI'' = Some nm \<and> nm \<noteq> []
               \<and> fst (get_stock_code_by_name scenario_api nm []) = Inr ''600519.SH'')
           \<or> (\<not> truthy (Some ''MOUTAI'') \<and> None = Some ''600519.SH'' \<and> ''600519.SH'' \<noteq> [])"
    by (simp add: get_stock_code_by_name_def scenario_api_def scenario_dir_def str_contains_def
        re_compile_def re_special_def atom_matches_def)
  have 2: "daily scenario_api ''600519.SH'' (start_or_default (Some ''20230101''))
             (end_or_default scenario_api (Some ''20231231'')) = Inr scenario_frame"
    by (simp add: scenario_api_def)
  have 3: "\<not> frame_empty scenario_frame" by (simp add: frame_empty_def scenario_frame_def)
  have 4: "wf_frame scenario_frame" by (simp add: wf_frame_def scenario_frame_def)
  have 5: "get_col scenario_frame ''trade_date'' = Inr [Str ''20230104'', Str ''20230103'']"
    by (simp add: get_col_def scenario_frame_def cell_at_def)
  have 6: "same_kind [Str ''20230104'', Str ''20230103'']" by (simp add: same_kind_def)
  have 7: "distinct [Str ''20230104'', Str ''20230103'']" by simp
  have 8: "all_ticker scenario_frame ''600519.SH''"
    by (simp add: all_ticker_def get_col_def scenario_frame_def cell_at_def)
  show ?thesis
    using C2_fetch_sorted_annotated [OF 1 2 3 4 5 6] 7 8 by blast
qed

text \<open>
  The claim as the specification words it fails in each of these calls. Every row
  annotated with the resolved display name: the name \<open>MOUTAI\<close> is resolved by the
  fuzzy step to the ticker whose display name is \<open>KWEICHOW MOUTAI\<close>, and the rows are
  annotated with \<open>MOUTAI\<close>, the string the caller passed; with a ticker code only
  and a directory that answers with no row, the rows get no \<open>stock_name\<close> column.
  Strictly ascending: a remote table with one date twice is returned with that date
  twice. All rows share the ticker: a remote row of another ticker is returned as it is.
  Rows are returned at all: remote dates of two kinds raise TypeError in the sort, two
  columns named \<open>trade_date\<close> raise ValueError.
\<close>

theorem C2_annotation_counterexample:
  "fst (get_stock_code_by_name scenario_api ''MOUTAI'' []) = Inr ''600519.SH''
   \<and> display_names scenario_dir ''600519.SH'' = [Some ''KWEICHOW MOUTAI'']
   \<and> fst (get_stock_data scenario_api (Some ''MOUTAI'') None (Some ''20230101'')
            (Some ''20231231'') [])
       = Inr \<lparr>index_name = None,
              columns = [''ts_code'', ''trade_date'', ''open'', ''high'', ''low'', ''close'',
                         ''vol'', ''stock_name''],
              rows = [(Num 1, [Str ''600519.SH'', Str ''20230103'', Num 1731, Num 1738,
                               Num 1706, Num 1730, Num 26034, Str ''MOUTAI'']),
                      (Num 0, [Str ''600519.SH'', Str ''20230104'', Num 1730, Num 1738,
                               Num 1716, Num 1735, Num 20415, Str ''MOUTAI''])]\<rparr>
   \<and> fst (get_stock_data scenario_api_no_names None (Some ''600519.SH'') None None [])
       = Inr \<lparr>index_name = None,
              columns = [''ts_code'', ''trade_date'', ''open'', ''high'', ''low'', ''close'',
                         ''vol''],
              rows = [(Num 1, [Str ''600519.SH'', Str ''20230103'', Num 1731, Num 1738,
                               Num 1706, Num 1730, Num 26034]),
                      (Num 0, [Str ''600519.SH'', Str ''20230104'', Num 1730, Num 1738,
                               Num 1716, Num 1735, Num 20415])]\<rparr>
   \<and> fst (get_stock_data (scenario_api_daily scenario_twice) None (Some ''600519.SH'') None
            None [])
       = Inr \<lparr>index_name = None,
              columns = [''ts_code'', ''trade_date'', ''stock_name''],
              rows = [(Num 0, [Str ''600519.SH'', Str ''20230104'', Str ''KWEICHOW MOUTAI'']),
                      (Num 1, [Str ''600519.SH'', Str ''20230104'', Str ''KWEICHOW MOUTAI''])]\<rparr>
   \<and> fst (get_stock_data (scenario_api_daily scenario_other_ticker) None (Some ''600519.SH'')
            None None [])
       = Inr \<lparr>index_name = None,
              columns = [''ts_code'', ''trade_date'', ''stock_name''],
              rows = [(Num 1, [Str ''000001.SZ'', Str ''20230103'', Str ''KWEICHOW MOUTAI'']),
                      (Num 0, [Str ''600519.SH'', Str ''20230104'', Str ''KWEICHOW MOUTAI''])]\<rparr>
   \<and> fst (get_stock_data (scenario_api_daily scenario_mixed_dates) None (Some ''600519.SH'')
            None None [])
       = Inl (TypeError ''not supported between instances'')
   \<and> fst (get_stock_data (scenario_api_daily scenario_two_date_columns) None
            (Some ''600519.SH'') None None [])
       = Inl (ValueError ''The column label is not unique'')"
  by (simp add: get_stock_data_def get_stock_code_by_name_def scenario_api_def scenario_dir_def
      scenario_api_no_names_def scenario_api_daily_def scenario_twice_def
      scenario_other_ticker_def scenario_mixed_dates_def scenario_two_date_columns_def
      display_names_def str_contains_def re_compile_def re_special_def atom_matches_def
      annotate_by_code_def start_or_default_def end_or_default_def frame_empty_def
      sort_values_def scenario_frame_def same_kind_def cell_at_def set_col_scalar_def set_col_def)

section \<open>Properties of \<open>prepare_data\<close>\<close>

subsection \<open>Column names\<close>












lemma columns_set_col: "set (columns (set_col df c vs)) = insert c (set (columns df))"
  by (auto simp: set_col_def col_pos_None split: option.splits dest: col_pos_Some)


lemma drop_nth_col_pos:
  "col_pos c cs = Some k \<Longrightarrow> set (drop_nth k cs) \<subseteq> set cs \<and> (distinct cs \<longrightarrow> set (drop_nth k cs) = set cs - {c})"
proof (induction cs arbitrary: k)
  case Nil
  then show ?case by simp
next
  case (Cons x xs)
  show ?case
  proof (cases "x = c")
    case True
    then show ?thesis using Cons.prems by (auto simp: drop_nth_def)
  next
    case False
    then obtain j where j: "col_pos c xs = Some j" "k = Suc j"
      using Cons.prems by (auto split: option.splits)
    from Cons.IH [OF j(1)] show ?thesis using j False
      by (auto simp: drop_nth_def)
  qed
qed










subsection \<open>Sorting by the index, and the fixed point\<close>









lemma canonical_lower:
  "ascii_lower ''Date'' = ''date''" "ascii_lower ''Open'' = ''open''" "ascii_lower ''High'' = ''high''"
  "ascii_lower ''Low'' = ''low''" "ascii_lower ''Close'' = ''close''" "ascii_lower ''Volume'' = ''volume''"
  by (simp_all add: ascii_lower_def lower_char_def upper_letters_def)


lemma yyyymmdd_ex:
  "yyyymmdd (Str ''20230104'') = Inr (Ts 20230104)"
  "yyyymmdd (Str ''20230103'') = Inr (Ts 20230103)"
  by (simp_all add: yyyymmdd_def)







subsection \<open>The copy: \<open>prepare_data\<close> on objects\<close>

lemma date_step_store_sim:
  assumes "data < length h" and "date_step_store lib h data = (h1, res)"
  shows "length h \<le> length h1
         \<and> (\<forall>i<length h. i \<noteq> data \<longrightarrow> h1 ! i = h ! i)
         \<and> (case res of
               Inl e \<Rightarrow> date_step lib (h ! data) = Inl e
             | Inr r \<Rightarrow> r < length h1 \<and> date_step lib (h ! data) = Inr (h1 ! r)
                          \<and> (r = data \<or> length h \<le> r))"
  using assms
  by (auto simp: date_step_store_def date_step_def alloc_def Let_def nth_append
      split: if_splits sum.splits)

lemma rename_check_sort_store_sim:
  assumes "data < length h" and "rename_check_sort_store lib h data = (h1, res)"
  shows "length h < length h1
         \<and> (\<forall>i<length h. i \<noteq> data \<longrightarrow> h1 ! i = h ! i)
         \<and> (case res of
               Inl e \<Rightarrow> rename_check_sort lib (h ! data) = Inl e
             | Inr r \<Rightarrow> length h < r \<and> r < length h1
                          \<and> rename_check_sort lib (h ! data) = Inr (h1 ! r))"
  using assms
  by (auto simp: rename_check_sort_store_def rename_check_sort_def alloc_def Let_def nth_append
      split: if_splits sum.splits)

text \<open>
  C9. \<open>prepare_data\<close> works on a copy. Whatever the call returns or raises, every
  object that was in the store before the call is as it was, the caller's table among
  them; a returned table is a new object, not the caller's, and it is the table the
  value-level \<open>prepare_data\<close> computes from the caller's table.
\<close>

theorem C9_prepare_data_copies:
  assumes "df < length h" and "prepare_data_store lib h df = (h', res)"
  shows "take (length h) h' = h
         \<and> h' ! df = h ! df
         \<and> (case res of
               Inl e \<Rightarrow> prepare_data lib (h ! df) = Inl e
             | Inr r \<Rightarrow> length h < r \<and> r < length h' \<and> r \<noteq> df
                          \<and> prepare_data lib (h ! df) = Inr (h' ! r))"
proof -
  define h0 where "h0 = h @ [h ! df]"
  have l0: "length h0 = Suc (length h)" and c0: "h0 ! length h = h ! df"
    and o0: "\<And>i. i < length h \<Longrightarrow> h0 ! i = h ! i"
    by (simp_all add: h0_def nth_append)
  obtain h1 res1 where ds: "date_step_store lib h0 (length h) = (h1, res1)"
    by (cases "date_step_store lib h0 (length h)") blast
  have "length h < length h0" by (simp add: l0)
  from date_step_store_sim [OF this ds]
  have len1: "length h0 \<le> length h1"
    and old1: "\<And>i. i < length h0 \<Longrightarrow> i \<noteq> length h \<Longrightarrow> h1 ! i = h0 ! i"
    and r1: "case res1 of
               Inl e \<Rightarrow> date_step lib (h0 ! length h) = Inl e
             | Inr r \<Rightarrow> r < length h1 \<and> date_step lib (h0 ! length h) = Inr (h1 ! r)
                          \<and> (r = length h \<or> length h0 \<le> r)"
    by simp_all
  have keep1: "\<And>i. i < length h \<Longrightarrow> h1 ! i = h ! i"
    using old1 o0 l0 by simp
  have pds: "prepare_data_store lib h df =
      (case res1 of
         Inl e \<Rightarrow> (h1, Inl e)
       | Inr data \<Rightarrow>
           if columns (h ! df) = []
           then (h1, Inl (AttributeError ''Can only use .str accessor with string values''))
           else rename_check_sort_store lib h1 data)"
    using ds by (simp add: prepare_data_store_def alloc_def h0_def split: sum.splits)
  have t1: "take (length h) h1 = h"
    using keep1 len1 l0 by (auto intro!: nth_equalityI)
  have k1: "h1 ! df = h ! df" using keep1 assms(1) by simp
  show ?thesis
  proof (cases res1)
    case (Inl e)
    then have hr: "h' = h1" "res = Inl e" using assms(2) pds by simp_all
    have "prepare_data lib (h ! df) = Inl e"
      using r1 Inl c0 by (simp add: prepare_data_def)
    then show ?thesis using hr t1 k1 by simp
  next
    case (Inr data)
    then have dl: "data < length h1" and dv: "date_step lib (h ! df) = Inr (h1 ! data)"
      and dge: "length h \<le> data"
      using r1 c0 l0 by auto
    show ?thesis
    proof (cases "columns (h ! df) = []")
      case True
      then have hr: "h' = h1"
        "res = Inl (AttributeError ''Can only use .str accessor with string values'')"
        using assms(2) pds Inr by simp_all
      have "prepare_data lib (h ! df)
              = Inl (AttributeError ''Can only use .str accessor with string values'')"
        using dv True by (simp add: prepare_data_def)
      then show ?thesis using hr t1 k1 by simp
    next
      case False
      have rcs: "rename_check_sort_store lib h1 data = (h', res)"
        using assms(2) pds Inr False by simp
      from rename_check_sort_store_sim [OF dl rcs]
      have len2: "length h1 < length h'"
        and old2: "\<And>i. i < length h1 \<Longrightarrow> i \<noteq> data \<Longrightarrow> h' ! i = h1 ! i"
        and r2: "case res of
                 Inl e \<Rightarrow> rename_check_sort lib (h1 ! data) = Inl e
               | Inr r \<Rightarrow> length h1 < r \<and> r < length h'
                            \<and> rename_check_sort lib (h1 ! data) = Inr (h' ! r)"
        by simp_all
      have keep2: "\<And>i. i < length h \<Longrightarrow> h' ! i = h ! i"
        using old2 keep1 dge len1 l0 by simp
      have t: "take (length h) h' = h"
        using keep2 len1 len2 l0 by (auto intro!: nth_equalityI)
      have k: "h' ! df = h ! df" using keep2 assms(1) by simp
      have pv: "prepare_data lib (h ! df) = rename_check_sort lib (h1 ! data)"
        using dv False by (simp add: prepare_data_def)
      show ?thesis
      proof (cases res)
        case (Inl e)
        then show ?thesis using t k pv r2 by simp
      next
        case (Inr r)
        then have "length h1 < r" "r < length h'"
          "rename_check_sort lib (h1 ! data) = Inr (h' ! r)"
          using r2 by simp_all
        then show ?thesis using t k pv Inr len1 l0 assms(1) by simp
      qed
    qed
  qed
qed

lemma date_step_store_ohlc:
  "date_step_store scenario_pandas [scenario_ohlc, scenario_ohlc] (Suc 0)
     = ([scenario_ohlc,
         scenario_ohlc\<lparr>rows := [(Num 0, [Ts 20230104, Num 1730, Num 1738, Num 1716, Num 1735, Num 20415]),
              (Num 1, [Ts 20230103, Num 1731, Num 1738, Num 1706, Num 1730, Num 26034])]\<rparr>,
         \<lparr>index_name = Some ''Date'',
            columns = [''Open'', ''High'', ''Low'', ''Close'', ''Volume''],
            rows = [(Ts 20230104, [Num 1730, Num 1738, Num 1716, Num 1735, Num 20415]),
                    (Ts 20230103, [Num 1731, Num 1738, Num 1706, Num 1730, Num 26034])]\<rparr>],
        Inr 2)"
  by (simp add: date_step_store_def scenario_ohlc_def scenario_pandas_def get_col_def cell_at_def
      yyyymmdd_ex set_col_def set_index_def drop_nth_def alloc_def)

lemma rename_check_sort_store_ohlc:
  "rename_check_sort_store lib
     [a, b, \<lparr>index_name = Some ''Date'',
            columns = [''Open'', ''High'', ''Low'', ''Close'', ''Volume''],
            rows = [(Ts 20230104, [Num 1730, Num 1738, Num 1716, Num 1735, Num 20415]),
                    (Ts 20230103, [Num 1731, Num 1738, Num 1706, Num 1730, Num 26034])]\<rparr>] 2
   = ([a, b,
       \<lparr>index_name = Some ''Date'',
            columns = [''open'', ''high'', ''low'', ''close'', ''volume''],
            rows = [(Ts 20230104, [Num 1730, Num 1738, Num 1716, Num 1735, Num 20415]),
                    (Ts 20230103, [Num 1731, Num 1738, Num 1706, Num 1730, Num 26034])]\<rparr>,
       \<lparr>index_name = Some ''Date'',
            columns = [''Open'', ''High'', ''Low'', ''Close'', ''Volume''],
            rows = [(Ts 20230104, [Num 1730, Num 1738, Num 1716, Num 1735, Num 20415]),
                    (Ts 20230103, [Num 1731, Num 1738, Num 1706, Num 1730, Num 26034])]\<rparr>,
       \<lparr>index_name = Some ''Date'',
            columns = [''Open'', ''High'', ''Low'', ''Close'', ''Volume''],
            rows = [(Ts 20230103, [Num 1731, Num 1738, Num 1706, Num 1730, Num 26034]),
                    (Ts 20230104, [Num 1730, Num 1738, Num 1716, Num 1735, Num 20415])]\<rparr>],
      Inr 4)"
  by (simp add: rename_check_sort_store_def alloc_def str_lower_def canonical_lower
      rename_column_def column_mapping_def missing_columns_def required_columns_def
      sort_index_def same_kind_def)

lemma prepare_data_store_ohlc:
  "snd (prepare_data_store scenario_pandas [scenario_ohlc] 0) = Inr 4
   \<and> length (fst (prepare_data_store scenario_pandas [scenario_ohlc] 0)) = 5"
proof -
  have "columns scenario_ohlc \<noteq> []" by (simp add: scenario_ohlc_def)
  then show ?thesis
    by (simp add: prepare_data_store_def alloc_def date_step_store_ohlc
        rename_check_sort_store_ohlc)
qed

theorem C9_prepare_data_copies_witness:
  "take (length [scenario_ohlc]) (fst (prepare_data_store scenario_pandas [scenario_ohlc] 0))
     = [scenario_ohlc]
   \<and> fst (prepare_data_store scenario_pandas [scenario_ohlc] 0) ! 0 = scenario_ohlc
   \<and> snd (prepare_data_store scenario_pandas [scenario_ohlc] 0) = Inr 4
   \<and> prepare_data scenario_pandas scenario_ohlc
       = Inr (fst (prepare_data_store scenario_pandas [scenario_ohlc] 0) ! 4)"
proof -
  have 1: "0 < length [scenario_ohlc]" by simp
  have 2: "prepare_data_store scenario_pandas [scenario_ohlc] 0
             = (fst (prepare_data_store scenario_pandas [scenario_ohlc] 0),
                snd (prepare_data_store scenario_pandas [scenario_ohlc] 0))"
    by simp
  show ?thesis
    using C9_prepare_data_copies [OF 1 2] prepare_data_store_ohlc by simp
qed

text \<open>
  Without the copy the caller's table would change: its \<open>Date\<close> column would hold the
  converted timestamps.
\<close>

lemma no_copy_changes_input:
  "fst (prepare_data_store_no_copy scenario_pandas [scenario_ohlc] 0) ! 0 \<noteq> scenario_ohlc"
  by (simp add: prepare_data_store_no_copy_def date_step_store_def scenario_ohlc_def
      scenario_pandas_def get_col_def cell_at_def yyyymmdd_ex set_col_def set_index_def
      drop_nth_def alloc_def rename_check_sort_store_def Let_def split: sum.splits prod.splits)

subsection \<open>The required columns\<close>







section \<open>Properties of the manual rendering\<close>






















section \<open>Properties of the batch driver\<close>

lemma resolve_result_indep:
  "fst (get_stock_code_by_name api nm rq) = fst (get_stock_code_by_name api nm rq')"
  by (simp add: get_stock_code_by_name_def Let_def split: sum.splits list.splits)

lemma from_stock_unresolved:
  assumes "b \<noteq> []" and "fst (get_stock_code_by_name api b rq0) = Inl e"
  shows "generate_chart_from_stock api lib fs rq (Some b) None None None chart_type title volume
           style figsize output_dir filename
           = (Inl e, fs, rq @ [StockBasicList])"
proof -
  have "fst (get_stock_code_by_name api b rq) = Inl e"
    using assms(2) resolve_result_indep [of api b rq rq0] by simp
  then have "get_stock_code_by_name api b rq = (Inl e, rq @ [StockBasicList])"
    using get_stock_code_by_name_log [of api b rq]
    by (cases "get_stock_code_by_name api b rq") simp
  then show ?thesis
    using assms(1) by (simp add: generate_chart_from_stock_def get_stock_data_def)
qed

lemma chart_one_failed:
  assumes "b \<noteq> []" and "fst (get_stock_code_by_name api b rq0) = Inl e"
  shows "chart_one api lib output_dir (Some b) None None None chart_type (results, fs, rq)
           = (results @ [ChartFailed (Some b) chart_type e], fs, rq @ [StockBasicList])"
  using assms(1) by (simp add: chart_one_def py_or_def from_stock_unresolved [OF assms])

lemma chart_one_saved:
  assumes "generate_chart_from_stock api lib fs rq (Some a) None None None chart_type None True
             ''yahoo'' (12, 8) output_dir None = (Inr (Some fig, df, Some p), fs', rq')"
    and "p \<noteq> []" and "a \<noteq> []"
  shows "chart_one api lib output_dir (Some a) None None None chart_type (results, fs, rq)
           = (results @ [ChartSaved (Some a) chart_type (length (rows df)) p], fs', rq')"
  using assms by (simp add: chart_one_def py_or_def)

lemma from_stock_empty_name:
  "fst (generate_chart_from_stock api lib fs rq (Some []) None None None chart_type title volume
          style figsize output_dir filename) = Inl MissingStockIdentifier"
  by (simp add: generate_chart_from_stock_def get_stock_data_def)

lemma chart_one_appends:
  "\<exists>xs. fst (chart_one api lib output_dir stock_name stock_code start_date end_date chart_type
              (results, fs, rq)) = results @ xs \<and> length xs \<le> 1"
  by (auto simp: chart_one_def split: prod.splits sum.splits option.splits)

lemma chart_one_records_failure:
  assumes "fst (generate_chart_from_stock api lib fs rq stock_name stock_code start_date end_date
             chart_type None True ''yahoo'' (12, 8) output_dir None) = Inl e"
  shows "fst (chart_one api lib output_dir stock_name stock_code start_date end_date chart_type
              (results, fs, rq))
           = results @ [ChartFailed (py_or stock_name stock_code) chart_type e]"
  using assms by (auto simp: chart_one_def split: prod.splits sum.splits)

text \<open>
  C5. For the batch call on the stocks \<open>[a, b]\<close> and the chart types \<open>[t1, t2]\<close>,
  where both charts of \<open>a\<close> succeed and the name \<open>b\<close> fails to resolve with error
  \<open>e\<close>: the returned list has exactly four entries, in input order: the two saved
  charts of \<open>a\<close>, then for \<open>b\<close> one failure entry per chart type, each with the
  name, the chart type and the error. The failures of \<open>b\<close> end nothing: the call
  returns the list.
\<close>

theorem C5_batch_isolates_failures:
  assumes a1: "chart_succeeds api lib output_dir a t1"
    and a2: "chart_succeeds api lib output_dir a t2"
    and b: "b \<noteq> []" "fst (get_stock_code_by_name api b []) = Inl e"
  shows "\<exists>n1 p1 n2 p2.
           fst (generate_multiple_charts api lib fs rq [StockName a, StockName b] [t1, t2] output_dir)
             = [ChartSaved (Some a) t1 n1 p1, ChartSaved (Some a) t2 n2 p2,
                ChartFailed (Some b) t1 e, ChartFailed (Some b) t2 e]"
proof -
  have an: "a \<noteq> []"
  proof
    assume "a = []"
    then have "fst (generate_chart_from_stock api lib fs rq (Some a) None None None t1 None True
                 ''yahoo'' (12, 8) output_dir None) = Inl MissingStockIdentifier"
      using from_stock_empty_name by simp
    moreover from a1 obtain fig df p fs' rq' where
      "generate_chart_from_stock api lib fs rq (Some a) None None None t1 None True
          ''yahoo'' (12, 8) output_dir None = (Inr (Some fig, df, Some p), fs', rq')"
      unfolding chart_succeeds_def by blast
    ultimately show False by simp
  qed
  from a1 obtain fig1 df1 p1 fs1 rq1 where
    g1: "generate_chart_from_stock api lib fs rq (Some a) None None None t1 None True
          ''yahoo'' (12, 8) output_dir None = (Inr (Some fig1, df1, Some p1), fs1, rq1)"
    and p1: "p1 \<noteq> []"
    unfolding chart_succeeds_def by blast
  from a2 obtain fig2 df2 p2 fs2 rq2 where
    g2: "generate_chart_from_stock api lib fs1 rq1 (Some a) None None None t2 None True
          ''yahoo'' (12, 8) output_dir None = (Inr (Some fig2, df2, Some p2), fs2, rq2)"
    and p2: "p2 \<noteq> []"
    unfolding chart_succeeds_def by blast
  have s1: "chart_one api lib output_dir (Some a) None None None t1 ([], fs, rq)
              = ([ChartSaved (Some a) t1 (length (rows df1)) p1], fs1, rq1)"
    using chart_one_saved [OF g1 p1 an, of "[]"] by simp
  have s2: "chart_one api lib output_dir (Some a) None None None t2
              ([ChartSaved (Some a) t1 (length (rows df1)) p1], fs1, rq1)
              = ([ChartSaved (Some a) t1 (length (rows df1)) p1,
                  ChartSaved (Some a) t2 (length (rows df2)) p2], fs2, rq2)"
    using chart_one_saved [OF g2 p2 an, of "[ChartSaved (Some a) t1 (length (rows df1)) p1]"]
    by simp
  have "generate_multiple_charts api lib fs rq [StockName a, StockName b] [t1, t2] output_dir
          = ([ChartSaved (Some a) t1 (length (rows df1)) p1,
              ChartSaved (Some a) t2 (length (rows df2)) p2,
              ChartFailed (Some b) t1 e, ChartFailed (Some b) t2 e],
             fs2, rq2 @ [StockBasicList] @ [StockBasicList])"
    by (simp add: generate_multiple_charts_def charts_of_item_def s1 s2 chart_one_failed [OF b])
  then show ?thesis by simp
qed

lemma scenario_fetch:
  "get_stock_data scenario_api (Some ''MOUTAI'') None None None rq
     = (Inr scenario_fetched,
        rq @ [StockBasicList] @ [Daily ''600519.SH'' ''20100101'' ''20240101''])"
  by (simp add: get_stock_data_def get_stock_code_by_name_def scenario_api_def scenario_dir_def
      str_contains_def re_compile_def re_special_def atom_matches_def start_or_default_def
      end_or_default_def frame_empty_def sort_values_def scenario_frame_def same_kind_def
      cell_at_def set_col_scalar_def set_col_def scenario_fetched_def)

lemma scenario_fetched_date_step:
  "date_step scenario_pandas scenario_fetched
     = Inr \<lparr>index_name = Some ''Date'',
      columns = [''ts_code'', ''trade_date'', ''open'', ''high'', ''low'', ''close'', ''vol'',
                 ''stock_name''],
      rows = [(Ts 20230103, [Str ''600519.SH'', Str ''20230103'', Num 1731, Num 1738, Num 1706,
                       Num 1730, Num 26034, Str ''MOUTAI'']),
              (Ts 20230104, [Str ''600519.SH'', Str ''20230104'', Num 1730, Num 1738, Num 1716,
                       Num 1735, Num 20415, Str ''MOUTAI''])]\<rparr>"
  by (simp add: date_step_def scenario_fetched_def scenario_pandas_def get_col_def cell_at_def
      convert_trade_date_def yyyymmdd_ex set_col_def set_index_def drop_nth_def)

lemma scenario_fetched_columns:
  "map (rename_column \<circ> str_lower lib)
     [''ts_code'', ''trade_date'', ''open'', ''high'', ''low'', ''close'', ''vol'', ''stock_name'']
   = [''ts_code'', ''trade_date'', ''Open'', ''High'', ''Low'', ''Close'', ''Volume'',
      ''stock_name'']"
  by (simp add: str_lower_def ascii_lower_def lower_char_def upper_letters_def
      rename_column_def column_mapping_def)

lemma scenario_fetched_missing:
  "missing_columns [''ts_code'', ''trade_date'', ''Open'', ''High'', ''Low'', ''Close'',
     ''Volume'', ''stock_name''] = []"
  by (simp add: missing_columns_def required_columns_def)

lemma scenario_fetched_sorted: "sort_index scenario_fetched_chart = Inr scenario_fetched_chart"
  by (simp add: sort_index_def same_kind_def scenario_fetched_chart_def)

lemma scenario_fetched_prepare:
  "prepare_data scenario_pandas scenario_fetched = Inr scenario_fetched_chart"
proof -
  have "columns scenario_fetched \<noteq> []" by (simp add: scenario_fetched_def)
  then show ?thesis
    using scenario_fetched_sorted
    by (simp add: prepare_data_def rename_check_sort_def scenario_fetched_date_step
        scenario_fetched_columns scenario_fetched_missing scenario_fetched_chart_def Let_def
        del: list.map)
qed

lemma scenario_fetched_title:
  "chart_title_for scenario_chart_lib_ok scenario_fetched scenario_fetched_chart None
     = Inr (AutoTitle (Str ''MOUTAI'') ''2023-01-03'' ''2023-01-04'')"
  by (simp add: chart_title_for_def scenario_fetched_def scenario_fetched_chart_def get_col_def
      cell_at_def index_strftime_def scenario_chart_lib_ok_def scenario_chart_lib_def)

lemma scenario_plot_ok:
  "plot_attempt scenario_chart_lib_ok cd (plot_params t True ''yahoo'' (12, 8) ttl []) = Inr ()"
  by (simp add: plot_attempt_def plot_params_def dict_update_def scenario_chart_lib_ok_def
      scenario_chart_lib_def Let_def)

lemma scenario_generate_chart:
  assumes "dirname p \<noteq> []" and "p \<noteq> []"
  shows "generate_chart scenario_chart_lib_ok fs (Table scenario_fetched) t None True ''yahoo''
           (12, 8) (Some p) []
         = (Inr (MpfFigure (), Some p),
            fs\<lparr>img_dirs := dirname p # img_dirs fs, img_files := (p, MpfFigure ()) # img_files fs\<rparr>)"
proof -
  have d: "pandas scenario_chart_lib_ok = scenario_pandas"
    by (simp add: scenario_chart_lib_ok_def scenario_chart_lib_def)
  show ?thesis
    using assms
    by (simp add: generate_chart_def load_input_def d scenario_fetched_prepare
        scenario_fetched_title scenario_plot_ok save_figure_def)
qed

lemma scenario_paths:
  "dirname ''stock_charts/MOUTAI_candle_20100101_20240101.png'' = ''stock_charts''"
  "dirname ''stock_charts/MOUTAI_line_20100101_20240101.png'' = ''stock_charts''"
  by (simp_all add: dirname_def)

lemma scenario_from_stock:
  "generate_chart_from_stock scenario_api scenario_chart_lib_ok fs rq (Some ''MOUTAI'') None None
     None ''candle'' None True ''yahoo'' (12, 8) ''stock_charts'' None
   = (Inr (Some (MpfFigure ()), scenario_fetched,
           Some ''stock_charts/MOUTAI_candle_20100101_20240101.png''),
      fs\<lparr>img_dirs := ''stock_charts'' # img_dirs fs,
         img_files := (''stock_charts/MOUTAI_candle_20100101_20240101.png'', MpfFigure ())
                      # img_files fs\<rparr>,
      rq @ [StockBasicList] @ [Daily ''600519.SH'' ''20100101'' ''20240101''])"
  "generate_chart_from_stock scenario_api scenario_chart_lib_ok fs rq (Some ''MOUTAI'') None None
     None ''line'' None True ''yahoo'' (12, 8) ''stock_charts'' None
   = (Inr (Some (MpfFigure ()), scenario_fetched,
           Some ''stock_charts/MOUTAI_line_20100101_20240101.png''),
      fs\<lparr>img_dirs := ''stock_charts'' # img_dirs fs,
         img_files := (''stock_charts/MOUTAI_line_20100101_20240101.png'', MpfFigure ())
                      # img_files fs\<rparr>,
      rq @ [StockBasicList] @ [Daily ''600519.SH'' ''20100101'' ''20240101''])"
proof -
  have ne: "\<not> frame_empty scenario_fetched"
    by (simp add: frame_empty_def scenario_fetched_def)
  have t: "today scenario_api = ''20240101''" by (simp add: scenario_api_def)
  have p1: "path_join ''stock_charts'' ''MOUTAI_candle_20100101_20240101.png''
              = ''stock_charts/MOUTAI_candle_20100101_20240101.png''"
    and p2: "path_join ''stock_charts'' ''MOUTAI_line_20100101_20240101.png''
              = ''stock_charts/MOUTAI_line_20100101_20240101.png''"
    by (simp_all add: path_join_def)
  show "generate_chart_from_stock scenario_api scenario_chart_lib_ok fs rq (Some ''MOUTAI'') None None
     None ''candle'' None True ''yahoo'' (12, 8) ''stock_charts'' None
   = (Inr (Some (MpfFigure ()), scenario_fetched,
           Some ''stock_charts/MOUTAI_candle_20100101_20240101.png''),
      fs\<lparr>img_dirs := ''stock_charts'' # img_dirs fs,
         img_files := (''stock_charts/MOUTAI_candle_20100101_20240101.png'', MpfFigure ())
                      # img_files fs\<rparr>,
      rq @ [StockBasicList] @ [Daily ''600519.SH'' ''20100101'' ''20240101''])"
    using scenario_generate_chart [of "''stock_charts/MOUTAI_candle_20100101_20240101.png''" fs "''candle''"]
    by (simp add: generate_chart_from_stock_def scenario_fetch ne py_or_def
        start_or_default_def end_or_default_def t p1 scenario_paths)
  show "generate_chart_from_stock scenario_api scenario_chart_lib_ok fs rq (Some ''MOUTAI'') None None
     None ''line'' None True ''yahoo'' (12, 8) ''stock_charts'' None
   = (Inr (Some (MpfFigure ()), scenario_fetched,
           Some ''stock_charts/MOUTAI_line_20100101_20240101.png''),
      fs\<lparr>img_dirs := ''stock_charts'' # img_dirs fs,
         img_files := (''stock_charts/MOUTAI_line_20100101_20240101.png'', MpfFigure ())
                      # img_files fs\<rparr>,
      rq @ [StockBasicList] @ [Daily ''600519.SH'' ''20100101'' ''20240101''])"
    using scenario_generate_chart [of "''stock_charts/MOUTAI_line_20100101_20240101.png''" fs "''line''"]
    by (simp add: generate_chart_from_stock_def scenario_fetch ne py_or_def
        start_or_default_def end_or_default_def t p2 scenario_paths)
qed

lemma scenario_succeeds:
  "chart_succeeds scenario_api scenario_chart_lib_ok ''stock_charts'' ''MOUTAI'' ''candle''"
  "chart_succeeds scenario_api scenario_chart_lib_ok ''stock_charts'' ''MOUTAI'' ''line''"
  by (simp_all add: chart_succeeds_def scenario_from_stock)

lemma scenario_unresolved:
  "fst (get_stock_code_by_name scenario_api ''NOSUCH'' []) = Inl (StockNameNotFound ''NOSUCH'')"
  by (simp add: get_stock_code_by_name_def scenario_api_def scenario_dir_def str_contains_def
      re_compile_def re_special_def atom_matches_def)

lemma scenario_batch:
  "fst (generate_multiple_charts scenario_api scenario_chart_lib_ok no_images []
          [StockName ''MOUTAI'', StockName ''NOSUCH''] [''candle'', ''line''] ''stock_charts'')
     = [ChartSaved (Some ''MOUTAI'') ''candle'' 2
          ''stock_charts/MOUTAI_candle_20100101_20240101.png'',
        ChartSaved (Some ''MOUTAI'') ''line'' 2
          ''stock_charts/MOUTAI_line_20100101_20240101.png'',
        ChartFailed (Some ''NOSUCH'') ''candle'' (StockNameNotFound ''NOSUCH''),
        ChartFailed (Some ''NOSUCH'') ''line'' (StockNameNotFound ''NOSUCH'')]"
proof -
  have n: "''NOSUCH'' \<noteq> []" by simp
  have r: "length (rows scenario_fetched) = 2" by (simp add: scenario_fetched_def)
  show ?thesis
    by (simp add: generate_multiple_charts_def charts_of_item_def chart_one_def
        scenario_from_stock py_or_def r from_stock_unresolved [OF n scenario_unresolved])
qed

theorem C5_batch_isolates_failures_witness:
  "(\<exists>n1 p1 n2 p2.
      fst (generate_multiple_charts scenario_api scenario_chart_lib_ok no_images []
             [StockName ''MOUTAI'', StockName ''NOSUCH''] [''candle'', ''line''] ''stock_charts'')
        = [ChartSaved (Some ''MOUTAI'') ''candle'' n1 p1, ChartSaved (Some ''MOUTAI'') ''line'' n2 p2,
           ChartFailed (Some ''NOSUCH'') ''candle'' (StockNameNotFound ''NOSUCH''),
           ChartFailed (Some ''NOSUCH'') ''line'' (StockNameNotFound ''NOSUCH'')])
   \<and> fst (generate_multiple_charts scenario_api scenario_chart_lib_ok no_images []
          [StockName ''MOUTAI'', StockName ''NOSUCH''] [''candle'', ''line''] ''stock_charts'')
     = [ChartSaved (Some ''MOUTAI'') ''candle'' 2
          ''stock_charts/MOUTAI_candle_20100101_20240101.png'',
        ChartSaved (Some ''MOUTAI'') ''line'' 2
          ''stock_charts/MOUTAI_line_20100101_20240101.png'',
        ChartFailed (Some ''NOSUCH'') ''candle'' (StockNameNotFound ''NOSUCH''),
        ChartFailed (Some ''NOSUCH'') ''line'' (StockNameNotFound ''NOSUCH'')]"
proof -
  have n: "''NOSUCH'' \<noteq> []" by simp
  from C5_batch_isolates_failures [OF scenario_succeeds n scenario_unresolved, of no_images "[]"]
  show ?thesis using scenario_batch by blast
qed

end
